theory Spec2Isabelle
  imports Main "HOL-Library.AList"
begin

section \<open>Python strings and values\<close>

text \<open>
  A Python \<open>str\<close> is modelled as a \<^typ>\<open>string\<close>; a character stands for the code
  point with the same number, so the model covers the code points below 256. The
  whitespace that \<open>str.strip\<close> and \<open>str.rstrip\<close> remove without an argument is, in that
  range, the code points 9 to 13, 28 to 32, 133 and 160.
\<close>

definition is_space :: "char \<Rightarrow> bool" where
  "is_space c =
     (let n = (of_char c :: nat)
      in (9 \<le> n \<and> n \<le> 13) \<or> (28 \<le> n \<and> n \<le> 32) \<or> n = 133 \<or> n = 160)"

text \<open>\<open>s.replace(a, b)\<close> for one-character strings \<open>a\<close> and \<open>b\<close>.\<close>

definition replace_char :: "char \<Rightarrow> char \<Rightarrow> string \<Rightarrow> string" where
  "replace_char a b s = map (\<lambda>c. if c = a then b else c) s"

text \<open>\<open>s.rstrip(chars)\<close>: drop the trailing characters that occur in \<open>chars\<close>.\<close>

definition rstrip_chars :: "string \<Rightarrow> string \<Rightarrow> string" where
  "rstrip_chars chars s = rev (dropWhile (\<lambda>c. c \<in> set chars) (rev s))"

text \<open>\<open>s.rstrip()\<close> and \<open>s.strip()\<close>.\<close>

definition rstrip :: "string \<Rightarrow> string" where
  "rstrip s = rev (dropWhile is_space (rev s))"

definition strip :: "string \<Rightarrow> string" where
  "strip s = dropWhile is_space (rstrip s)"

text \<open>
  \<open>s.lower()\<close>. Below 256 the cased letters are A to Z and the Latin-1 capitals 192 to
  222 (215, the multiplication sign, apart); each is 32 below its lower-case form.
\<close>

definition lower_char :: "char \<Rightarrow> char" where
  "lower_char c =
     (let n = (of_char c :: nat)
      in if (65 \<le> n \<and> n \<le> 90) \<or> (192 \<le> n \<and> n \<le> 222 \<and> n \<noteq> 215)
         then char_of (n + 32) else c)"

definition lower :: "string \<Rightarrow> string" where
  "lower s = map lower_char s"

definition startswith :: "string \<Rightarrow> string \<Rightarrow> bool" where
  "startswith s p = (take (length p) s = p)"

definition endswith :: "string \<Rightarrow> string \<Rightarrow> bool" where
  "endswith s p = (length p \<le> length s \<and> drop (length s - length p) s = p)"

text \<open>\<open>p in s\<close> for strings: \<open>p\<close> occurs in \<open>s\<close> as a contiguous substring.\<close>

fun str_in :: "string \<Rightarrow> string \<Rightarrow> bool" where
  "str_in p [] = (p = [])"
| "str_in p (c # s) = (take (length p) (c # s) = p \<or> str_in p s)"

text \<open>
  The values a room attribute or a CSV cell holds: \<open>None\<close>, a \<open>bool\<close>, an \<open>int\<close>
  (creation date, creator id), a \<open>str\<close>, or any other object (a keyword list),
  which is kept opaque.
\<close>

datatype pyval = PNone | PBool bool | PInt int | PStr string | PObj string

text \<open>Python's \<open>==\<close> on these values; \<open>bool\<close> is a subclass of \<open>int\<close>, so \<open>True == 1\<close>.\<close>

fun py_eq :: "pyval \<Rightarrow> pyval \<Rightarrow> bool" where
  "py_eq (PBool b) (PInt i) = (i = (if b then 1 else 0))"
| "py_eq (PInt i) (PBool b) = (i = (if b then 1 else 0))"
| "py_eq v w = (v = w)"

text \<open>
  The exceptions that reach this module. An \<open>ApiException\<close> of the BDK carries a
  \<open>body\<close>; the handlers read it with \<open>json.loads(err.body)\<close> and look for the key
  \<open>message\<close>. Any other exception has no \<open>body\<close> attribute.
\<close>

datatype api_body =
    JsonMessage string   \<comment> \<open>a JSON object with \<open>"message"\<close>\<close>
  | JsonNoMessage        \<comment> \<open>a JSON object without \<open>"message"\<close>\<close>
  | NotJson              \<comment> \<open>text that is not JSON\<close>

datatype py_exception =
    ApiException api_body
  | TypeError
  | KeyError
  | AttributeError
  | JSONDecodeError
  | OtherError string

text \<open>\<open>reason = json.loads(err.body)\<close> followed by the test \<open>'message' in reason\<close>.\<close>

fun json_loads_body :: "py_exception \<Rightarrow> py_exception + string option" where
  "json_loads_body (ApiException (JsonMessage m)) = Inr (Some m)"
| "json_loads_body (ApiException JsonNoMessage) = Inr None"
| "json_loads_body (ApiException NotJson) = Inl JSONDecodeError"
| "json_loads_body e = Inl AttributeError"

section \<open>Room identifiers and boolean cells\<close>

text \<open>
  \<^verbatim>\<open>def _make_b64_id_safe(id):
      return id.replace("+","-").replace("/","_").rstrip("=").rstrip()\<close>
\<close>

definition make_b64_id_safe :: "string \<Rightarrow> string" where
  "make_b64_id_safe ident =
     rstrip (rstrip_chars ''=''
       (replace_char CHR ''/'' CHR ''_'' (replace_char CHR ''+'' CHR ''-'' ident)))"

text \<open>
  \<^verbatim>\<open>def _string_to_bool (val) -> bool:
      val = val.lower()
      if val in ('y', 'yes', 't', 'true', 'on', '1'): return True
      elif val in ('n', 'no', 'f', 'false', 'off', '0'): return False
      else: raise None\<close>
  In Python 3, \<open>raise None\<close> raises \<open>TypeError\<close> (exceptions must derive from
  \<open>BaseException\<close>).
\<close>

definition TRUE_STRINGS :: "string list" where
  "TRUE_STRINGS = [''y'', ''yes'', ''t'', ''true'', ''on'', ''1'']"

definition FALSE_STRINGS :: "string list" where
  "FALSE_STRINGS = [''n'', ''no'', ''f'', ''false'', ''off'', ''0'']"

definition string_to_bool :: "string \<Rightarrow> py_exception + bool" where
  "string_to_bool val =
     (let v = lower val
      in if v \<in> set TRUE_STRINGS then Inr True
         else if v \<in> set FALSE_STRINGS then Inr False
         else Inl TypeError)"


section \<open>Room attributes and the mapping tables\<close>

text \<open>
  A \<open>V3RoomAttributes\<close> or \<open>V3RoomSystemInfo\<close> object is used by this module through
  \<open>attribute in obj\<close>, \<open>obj[attribute]\<close> and \<open>obj[attribute] = val\<close> only: it is the
  store of the attributes that have been set, kept in insertion order. An attribute
  can be missing from the store or be stored with the value \<open>None\<close>; the code tests
  both. \<open>V3RoomAttributes()\<close> is the empty store.
\<close>

type_synonym attrs = "(string \<times> pyval) list"

record room_detail =
  room_attributes :: attrs
  room_system_info :: attrs

text \<open>The three tables, as (key, mapped key, third column) in the order of the source.\<close>

definition CSV_ROOM_TO_ROOM_ATTRIBUTES_MAP :: "(string \<times> string \<times> string) list" where
  "CSV_ROOM_TO_ROOM_ATTRIBUTES_MAP =
     [(''name'', ''name'', ''string*''),
      (''description'', ''description'', ''string''),
      (''membersCanInvite'', ''members_can_invite'', ''bool''),
      (''discoverable'', ''discoverable'', ''bool''),
      (''copyProtected'', ''copy_protected'', ''bool+''),
      (''viewHistory'', ''view_history'', ''bool''),
      (''pinnedMessageId'', ''pinned_message_id'', ''string_b64'')]"

definition ROOM_TO_CSV_ROOM_MAP :: "(string \<times> string \<times> bool) list" where
  "ROOM_TO_CSV_ROOM_MAP =
     [(''id'', ''streamId'', True),
      (''name'', ''name'', False),
      (''description'', ''description'', False),
      (''members_can_invite'', ''membersCanInvite'', False),
      (''discoverable'', ''discoverable'', False),
      (''copy_protected'', ''copyProtected'', False),
      (''view_history'', ''viewHistory'', False),
      (''pinned_message_id'', ''pinnedMessageId'', False)]"

definition ROOM_TO_CSV_ROOM_MAP_NON_MODIFIABLE :: "(string \<times> string \<times> bool) list" where
  "ROOM_TO_CSV_ROOM_MAP_NON_MODIFIABLE =
     [(''public'', ''public'', False),
      (''read_only'', ''readOnly'', False),
      (''cross_pod'', ''crossPod'', False),
      (''multi_lateral_room'', ''multiLateralRoom'', False),
      (''active'', ''active'', True),
      (''keywords'', ''keywords'', False),
      (''created_by_user_id'', ''createdByUserId'', True),
      (''creation_date'', ''creationDate'', True)]"

section \<open>The module-level column lists\<close>

text \<open>
  The module builds three lists when it is loaded. \<open>export_rooms_to_csv\<close> and
  \<open>update_rooms_from_csv\<close> bind a local name to the first one and extend it with
  \<open>+=\<close>, which for a Python list extends the object in place. The lists are therefore
  kept in a store indexed by the list object, and a local name is the object it is
  bound to.
\<close>

datatype list_ref =
    CSV_STREAM_FIELD_NAMES
  | CSV_STREAM_NON_MODIFIABLE_FIELD_NAMES
  | CSV_RESULTS_STREAM_FIELD_NAMES

type_synonym module_state = "list_ref \<Rightarrow> string list"

text \<open>The store after the module has been loaded (lines 75 to 86).\<close>

definition module_loaded :: module_state where
  "module_loaded r =
     (case r of
        CSV_STREAM_FIELD_NAMES \<Rightarrow> map (\<lambda>(key, mapped_key, _). mapped_key) ROOM_TO_CSV_ROOM_MAP
      | CSV_STREAM_NON_MODIFIABLE_FIELD_NAMES \<Rightarrow>
          map (\<lambda>(key, mapped_key, _). mapped_key @ '' (X)'') ROOM_TO_CSV_ROOM_MAP_NON_MODIFIABLE
      | CSV_RESULTS_STREAM_FIELD_NAMES \<Rightarrow> [''status'', ''reason''])"

text \<open>\<open>a += b\<close> on list objects.\<close>

definition list_iadd :: "list_ref \<Rightarrow> list_ref \<Rightarrow> module_state \<Rightarrow> module_state" where
  "list_iadd a b h = h(a := h a @ h b)"

text \<open>
  Lines 166 to 170 of \<open>export_rooms_to_csv\<close>: the header row that \<open>writeheader\<close> emits,
  and the store afterwards.
\<close>

definition export_rooms_to_csv_header :: "bool \<Rightarrow> module_state \<Rightarrow> string list \<times> module_state" where
  "export_rooms_to_csv_header export_non_modifiable h =
     (let field_names = CSV_STREAM_FIELD_NAMES;
          h1 = (if export_non_modifiable
                then list_iadd field_names CSV_STREAM_NON_MODIFIABLE_FIELD_NAMES h else h)
      in (h1 field_names, h1))"

text \<open>Lines 198 to 203 of \<open>update_rooms_from_csv\<close>.\<close>

definition update_rooms_from_csv_header :: "bool \<Rightarrow> module_state \<Rightarrow> string list \<times> module_state" where
  "update_rooms_from_csv_header export_non_modifiable h =
     (let fields = CSV_STREAM_FIELD_NAMES;
          h1 = (if export_non_modifiable
                then list_iadd fields CSV_STREAM_NON_MODIFIABLE_FIELD_NAMES h else h);
          h2 = list_iadd fields CSV_RESULTS_STREAM_FIELD_NAMES h1
      in (h2 fields, h2))"

section \<open>Comparing and converting room settings\<close>

text \<open>
  \<^verbatim>\<open>def _check_room_modified(old_settings, new_settings):
      modified = False
      for attribute in ROOM_TO_CSV_ROOM_MAP:
          if attribute in new_settings and attribute in old_settings
             and new_settings[attribute] is not None
             and new_settings[attribute] != old_settings[attribute]:
              modified = True
              break
      return modified\<close>
\<close>

fun check_room_modified_loop :: "string list \<Rightarrow> attrs \<Rightarrow> attrs \<Rightarrow> bool" where
  "check_room_modified_loop [] old_settings new_settings = False"
| "check_room_modified_loop (attribute # rest) old_settings new_settings =
     (case map_of new_settings attribute of
        None \<Rightarrow> check_room_modified_loop rest old_settings new_settings
      | Some new \<Rightarrow>
          (case map_of old_settings attribute of
             None \<Rightarrow> check_room_modified_loop rest old_settings new_settings
           | Some old \<Rightarrow>
               if new \<noteq> PNone \<and> \<not> py_eq new old then True
               else check_room_modified_loop rest old_settings new_settings))"

definition check_room_modified :: "attrs \<Rightarrow> attrs \<Rightarrow> bool" where
  "check_room_modified old_settings new_settings =
     check_room_modified_loop (map fst ROOM_TO_CSV_ROOM_MAP) old_settings new_settings"



text \<open>
  The body of the loop of \<open>_csv_room_settings_to_v3_room_attributes\<close> for one cell
  (lines 510 to 533): the value to store, \<open>None\<close> when the cell is to be ignored. The
  two literals are a pair of double quotes and a pair of single quotes.
  \<^verbatim>\<open>val = room_row[attribute].strip()
  if not val: val = None
  elif val == '""' or val == "''": val = ''
  if attribute_type.endswith('*') and val == '': val = None
  if val is not None:
      if attribute_type.startswith('bool'):
          val = _string_to_bool(val)
          if attribute_type.endswith('+'):
              val = None
      elif '_b64_' in attribute_type:
          val = _make_b64_id_safe(val)\<close>
\<close>

definition csv_cell_to_value :: "string \<Rightarrow> string \<Rightarrow> py_exception + pyval" where
  "csv_cell_to_value attribute_type cell =
     (let val0 = strip cell;
          val1 = (if val0 = [] then PNone
                  else if val0 = [CHR 0x22, CHR 0x22] \<or> val0 = [CHR 0x27, CHR 0x27] then PStr []
                  else PStr val0);
          val2 = (if endswith attribute_type ''*'' \<and> val1 = PStr [] then PNone else val1)
      in case val2 of
           PStr s \<Rightarrow>
             if startswith attribute_type ''bool'' then
               (case string_to_bool s of
                  Inl e \<Rightarrow> Inl e
                | Inr b \<Rightarrow> if endswith attribute_type ''+'' then Inr PNone else Inr (PBool b))
             else if str_in ''_b64_'' attribute_type then Inr (PStr (make_b64_id_safe s))
             else Inr (PStr s)
         | v \<Rightarrow> Inr v)"

text \<open>
  The loop over the row. A row is the dictionary of a \<open>csv.DictReader\<close>, or the one
  \<open>_room_details_to_csv_dict\<close> builds: column names with their cells, in order, no
  name twice. \<open>strip\<close> on a cell that is not a \<open>str\<close> raises \<open>AttributeError\<close>.
\<close>

fun csv_attributes_loop :: "(string \<times> pyval) list \<Rightarrow> attrs \<Rightarrow> py_exception + attrs" where
  "csv_attributes_loop [] new_attributes = Inr new_attributes"
| "csv_attributes_loop ((attribute, cell) # rest) new_attributes =
     (case map_of CSV_ROOM_TO_ROOM_ATTRIBUTES_MAP attribute of
        None \<Rightarrow> csv_attributes_loop rest new_attributes
      | Some (attribute_name, attribute_type) \<Rightarrow>
          (case cell of
             PStr s \<Rightarrow>
               (case csv_cell_to_value attribute_type s of
                  Inl e \<Rightarrow> Inl e
                | Inr val \<Rightarrow>
                    if val = PNone then csv_attributes_loop rest new_attributes
                    else csv_attributes_loop rest (AList.update attribute_name val new_attributes))
           | _ \<Rightarrow> Inl AttributeError))"

text \<open>
  \<open>_csv_room_settings_to_v3_room_attributes\<close>: \<open>room_row['streamId']\<close> is read first
  (for the log lines), so a row without that column raises \<open>KeyError\<close>.
\<close>

definition csv_room_settings_to_v3_room_attributes ::
    "(string \<times> pyval) list \<Rightarrow> py_exception + attrs" where
  "csv_room_settings_to_v3_room_attributes room_row =
     (case map_of room_row ''streamId'' of
        None \<Rightarrow> Inl KeyError
      | Some (PStr s) \<Rightarrow> csv_attributes_loop room_row []
      | Some _ \<Rightarrow> Inl AttributeError)"

section \<open>The gateway and the log\<close>

text \<open>
  The BDK's stream service is outside the repository: it is a parameter of the
  model. Each call takes the state of the remote pod and gives back either the
  exception it raised or its result, with the pod's new state. The user id is the
  text that \<open>str.format\<close> inserts for \<open>self.bot_info.id\<close>.
\<close>

record 's gateway =
  gw_get_room_info :: "string \<Rightarrow> 's \<Rightarrow> (py_exception + room_detail) \<times> 's"
  gw_update_room :: "string \<Rightarrow> attrs \<Rightarrow> 's \<Rightarrow> (py_exception + room_detail) \<times> 's"
  gw_add_member_to_room :: "string \<Rightarrow> string \<Rightarrow> 's \<Rightarrow> (py_exception + unit) \<times> 's"
  gw_promote_user_to_room_owner :: "string \<Rightarrow> string \<Rightarrow> 's \<Rightarrow> (py_exception + unit) \<times> 's"
  gw_demote_owner_to_room_participant :: "string \<Rightarrow> string \<Rightarrow> 's \<Rightarrow> (py_exception + unit) \<times> 's"
  gw_remove_member_from_room :: "string \<Rightarrow> string \<Rightarrow> 's \<Rightarrow> (py_exception + unit) \<times> 's"

text \<open>
  The logger: a record is its level, the stream id between the brackets and the
  fixed text of the message (the formatted objects are left out). \<open>log.exception\<close>
  logs at level \<open>ERROR\<close>.
\<close>

datatype level = DEBUG | INFO | ERROR

type_synonym log_record = "level \<times> string \<times> string"

type_synonym 's world = "'s \<times> log_record list"

definition log :: "level \<Rightarrow> string \<Rightarrow> string \<Rightarrow> 's world \<Rightarrow> 's world" where
  "log lvl sid msg w = (fst w, snd w @ [(lvl, sid, msg)])"

definition call_gateway :: "('s \<Rightarrow> 'r \<times> 's) \<Rightarrow> 's world \<Rightarrow> 'r \<times> 's world" where
  "call_gateway f w = (case f (fst w) of (r, s) \<Rightarrow> (r, (s, snd w)))"

definition NOT_ROOM_MEMBER_MESSAGE :: "string \<Rightarrow> string" where
  "NOT_ROOM_MEMBER_MESSAGE user = ''User '' @ user @ '' is not a member of the room''"

definition NOT_ROOM_OWNER_MESSAGE :: string where
  "NOT_ROOM_OWNER_MESSAGE = ''Only room owners can perform this action.''"

definition NOT_ABLE_TO_JOIN_MULTILATERAL_ROOMS :: string where
  "NOT_ABLE_TO_JOIN_MULTILATERAL_ROOMS = ''This person is not permitted to join multilateral rooms.''"

definition NOT_ABLE_TO_DEMOTE_ONLY_OWNER :: string where
  "NOT_ABLE_TO_DEMOTE_ONLY_OWNER = ''Unable to demote last owner of the chatroom.''"

section \<open>Updating one room\<close>

text \<open>\<open>get_room_info\<close> normalises the id it is given, once more.\<close>

definition get_room_info ::
    "'s gateway \<Rightarrow> string \<Rightarrow> 's world \<Rightarrow> (py_exception + room_detail) \<times> 's world" where
  "get_room_info g stream_id w =
     (let sid = make_b64_id_safe stream_id
      in case call_gateway (gw_get_room_info g sid) (log DEBUG sid ''Getting room settings.'' w) of
           (Inl e, w1) \<Rightarrow> (Inl e, w1)
         | (Inr details, w1) \<Rightarrow>
             (Inr details, log DEBUG sid ''Room Info'' (log INFO sid ''Retreived room info.'' w1)))"

text \<open>
  \<open>_update_room_exception_handler\<close> logs and always raises the exception it was
  given; the model returns the world after its log records.
\<close>

definition update_room_exception_handler :: "string \<Rightarrow> py_exception \<Rightarrow> 's world \<Rightarrow> 's world" where
  "update_room_exception_handler sid exception w =
     log ERROR sid ''Unable to update room. Reason''
       (case json_loads_body exception of
          Inl _ \<Rightarrow> log ERROR sid ''Unable to update room.'' w
        | Inr _ \<Rightarrow> w)"

definition add_self_to_room ::
    "'s gateway \<Rightarrow> string \<Rightarrow> string \<Rightarrow> 's world \<Rightarrow> (py_exception + unit) \<times> 's world" where
  "add_self_to_room g bot_id sid w =
     (case call_gateway (gw_add_member_to_room g bot_id sid) w of
        (Inr _, w1) \<Rightarrow> (Inr (), log DEBUG sid ''Bot added to room.'' w1)
      | (Inl err, w1) \<Rightarrow>
          (case json_loads_body err of
             Inl e \<Rightarrow> (Inl e, w1)
           | Inr reason \<Rightarrow>
               if reason = Some NOT_ABLE_TO_JOIN_MULTILATERAL_ROOMS
               then (Inr (), log ERROR sid ''Unable to join multilateral room.'' w1)
               else (Inl err, w1)))"

definition promote_self_to_owner ::
    "'s gateway \<Rightarrow> string \<Rightarrow> string \<Rightarrow> 's world \<Rightarrow> (py_exception + unit) \<times> 's world" where
  "promote_self_to_owner g bot_id sid w =
     (case call_gateway (gw_promote_user_to_room_owner g bot_id sid) w of
        (Inr _, w1) \<Rightarrow> (Inr (), log DEBUG sid ''Bot promoted to owner.'' w1)
      | (Inl err, w1) \<Rightarrow> (Inl err, w1))"

definition remove_self_from_room ::
    "'s gateway \<Rightarrow> string \<Rightarrow> string \<Rightarrow> 's world \<Rightarrow> (py_exception + unit) \<times> 's world" where
  "remove_self_from_room g bot_id sid w =
     (case call_gateway (gw_remove_member_from_room g bot_id sid) w of
        (Inr _, w1) \<Rightarrow> (Inr (), log DEBUG sid ''Bot removed from room.'' w1)
      | (Inl err, w1) \<Rightarrow> (Inl err, w1))"

definition demote_self_for_room ::
    "'s gateway \<Rightarrow> string \<Rightarrow> string \<Rightarrow> 's world \<Rightarrow> (py_exception + unit) \<times> 's world" where
  "demote_self_for_room g bot_id sid w =
     (case call_gateway (gw_demote_owner_to_room_participant g bot_id sid) w of
        (Inr _, w1) \<Rightarrow> (Inr (), log DEBUG sid ''Bot demoted from owner.'' w1)
      | (Inl err, w1) \<Rightarrow>
          (case json_loads_body err of
             Inl e \<Rightarrow> (Inl e, w1)
           | Inr reason \<Rightarrow>
               if reason = Some NOT_ABLE_TO_DEMOTE_ONLY_OWNER
               then (Inr (), log ERROR sid ''Unable to demote bot as it is the only owner.'' w1)
               else (Inl err, w1)))"

text \<open>Lines 365 to 368 of \<open>update_room\<close>: the write.\<close>

definition update_room_write ::
    "'s gateway \<Rightarrow> string \<Rightarrow> attrs \<Rightarrow> 's world \<Rightarrow> (py_exception + room_detail) \<times> 's world" where
  "update_room_write g sid settings w =
     (case call_gateway (gw_update_room g sid settings) (log DEBUG sid ''Calling update_room'' w) of
        (Inl e, w1) \<Rightarrow> (Inl e, w1)
      | (Inr updated_stream, w1) \<Rightarrow>
          (Inr updated_stream, log INFO sid ''Updated Stream - New Settings'' w1))"

text \<open>Lines 360 to 368: the body of the outer \<open>try\<close>.\<close>

definition update_room_try ::
    "'s gateway \<Rightarrow> string \<Rightarrow> attrs \<Rightarrow> bool \<Rightarrow> 's world \<Rightarrow> (py_exception + room_detail) \<times> 's world" where
  "update_room_try g sid settings pre_check w =
     (if pre_check then
        (case get_room_info g sid w of
           (Inl e, w1) \<Rightarrow> (Inl e, w1)
         | (Inr current_room_info, w1) \<Rightarrow>
             if \<not> check_room_modified (room_attributes current_room_info) settings
             then (Inr current_room_info,
                   log INFO sid ''Current room settings match... Skipping...'' w1)
             else update_room_write g sid settings w1)
      else update_room_write g sid settings w)"

text \<open>
  \<open>update_room\<close> calls itself through its two helpers, and the retried call can
  recover again, with no bound in the source. The helpers and the handler of lines
  369 to 392 take the method they call back, \<open>self.update_room\<close>, as their first
  argument; \<open>update_room\<close> ties the knot by recursion on a bound for the depth of the
  calls, and \<open>None\<close> means that the bound was reached.
\<close>

type_synonym 's update_room_method =
  "string \<Rightarrow> attrs \<Rightarrow> bool \<Rightarrow> 's world \<Rightarrow> ((py_exception + room_detail) \<times> 's world) option"

definition promote_self_and_update_room ::
    "'s update_room_method \<Rightarrow> 's gateway \<Rightarrow> string \<Rightarrow> string \<Rightarrow> attrs \<Rightarrow> 's world
      \<Rightarrow> ((py_exception + room_detail) \<times> 's world) option" where
  "promote_self_and_update_room self_update_room g bot_id stream_id settings w =
     (case promote_self_to_owner g bot_id stream_id w of
        (Inl e, w1) \<Rightarrow> Some (Inl e, w1)
      | (Inr _, w1) \<Rightarrow> self_update_room stream_id settings False w1)"

definition add_self_and_update_room ::
    "'s update_room_method \<Rightarrow> 's gateway \<Rightarrow> string \<Rightarrow> string \<Rightarrow> attrs \<Rightarrow> 's world
      \<Rightarrow> ((py_exception + room_detail) \<times> 's world) option" where
  "add_self_and_update_room self_update_room g bot_id stream_id settings w =
     (case add_self_to_room g bot_id stream_id (log DEBUG stream_id ''Bot is not a member.'' w) of
        (Inl e, w1) \<Rightarrow> Some (Inl e, w1)
      | (Inr _, w1) \<Rightarrow>
          (case promote_self_to_owner g bot_id stream_id w1 of
             (Inl e, w2) \<Rightarrow> Some (Inl e, w2)
           | (Inr _, w2) \<Rightarrow> self_update_room stream_id settings False w2))"

text \<open>
  Lines 381 to 386: the \<open>try\<close> of the membership recovery. Its bare \<open>except\<close> calls the
  handler with \<open>inner_err\<close>; the handler raises, and that \<open>raise\<close> is caught by the bare
  \<open>except\<close> of line 389, which calls the handler with \<open>err\<close>.
\<close>

definition update_room_as_new_member ::
    "'s update_room_method \<Rightarrow> 's gateway \<Rightarrow> string \<Rightarrow> string \<Rightarrow> attrs
      \<Rightarrow> py_exception \<Rightarrow> py_exception \<Rightarrow> 's world
      \<Rightarrow> ((py_exception + room_detail) \<times> 's world) option" where
  "update_room_as_new_member self_update_room g bot_id sid settings err inner_err w =
     (case add_self_and_update_room self_update_room g bot_id sid settings w of
        None \<Rightarrow> None
      | Some (Inl _, w1) \<Rightarrow>
          Some (Inl err,
            update_room_exception_handler sid err (update_room_exception_handler sid inner_err w1))
      | Some (Inr updated_stream, w1) \<Rightarrow>
          (case remove_self_from_room g bot_id sid w1 of
             (Inl _, w2) \<Rightarrow>
               Some (Inl err,
                 update_room_exception_handler sid err
                   (update_room_exception_handler sid inner_err w2))
           | (Inr _, w2) \<Rightarrow> Some (Inr updated_stream, w2)))"

text \<open>
  Lines 377 to 390: the handler of \<open>inner_err\<close>. In its \<open>else\<close> branch the handler is
  called with \<open>err\<close>, raises, is caught by line 389 and called with \<open>err\<close> again.
\<close>

definition update_room_inner_except ::
    "'s update_room_method \<Rightarrow> 's gateway \<Rightarrow> string \<Rightarrow> string \<Rightarrow> attrs
      \<Rightarrow> py_exception \<Rightarrow> py_exception \<Rightarrow> 's world
      \<Rightarrow> ((py_exception + room_detail) \<times> 's world) option" where
  "update_room_inner_except self_update_room g bot_id sid settings err inner_err w =
     (case json_loads_body inner_err of
        Inl _ \<Rightarrow> Some (Inl err, update_room_exception_handler sid err w)
      | Inr reason \<Rightarrow>
          if reason = Some (NOT_ROOM_MEMBER_MESSAGE bot_id)
          then update_room_as_new_member self_update_room g bot_id sid settings err inner_err w
          else Some (Inl err,
                 update_room_exception_handler sid err (update_room_exception_handler sid err w)))"

text \<open>Lines 372 to 376: the \<open>try\<close> of the promotion recovery.\<close>

definition update_room_as_new_owner ::
    "'s update_room_method \<Rightarrow> 's gateway \<Rightarrow> string \<Rightarrow> string \<Rightarrow> attrs \<Rightarrow> 's world
      \<Rightarrow> ((py_exception + room_detail) \<times> 's world) option" where
  "update_room_as_new_owner self_update_room g bot_id sid settings w =
     (case promote_self_and_update_room self_update_room g bot_id sid settings
             (log DEBUG sid ''Bot is not owner. Attempting to make bot an owner.'' w) of
        None \<Rightarrow> None
      | Some (Inl e, w1) \<Rightarrow> Some (Inl e, w1)
      | Some (Inr updated_stream, w1) \<Rightarrow>
          (case demote_self_for_room g bot_id sid w1 of
             (Inl e, w2) \<Rightarrow> Some (Inl e, w2)
           | (Inr _, w2) \<Rightarrow> Some (Inr updated_stream, w2)))"

text \<open>
  Lines 369 to 392: the handler of \<open>err\<close>. When \<open>json.loads(err.body)\<close> of line 370
  raises, that exception leaves \<open>update_room\<close>.
\<close>

definition update_room_except ::
    "'s update_room_method \<Rightarrow> 's gateway \<Rightarrow> string \<Rightarrow> string \<Rightarrow> attrs \<Rightarrow> py_exception
      \<Rightarrow> 's world \<Rightarrow> ((py_exception + room_detail) \<times> 's world) option" where
  "update_room_except self_update_room g bot_id sid settings err w =
     (case json_loads_body err of
        Inl e \<Rightarrow> Some (Inl e, w)
      | Inr reason \<Rightarrow>
          if reason = Some NOT_ROOM_OWNER_MESSAGE then
            (case update_room_as_new_owner self_update_room g bot_id sid settings w of
               None \<Rightarrow> None
             | Some (Inr updated_stream, w1) \<Rightarrow> Some (Inr updated_stream, w1)
             | Some (Inl inner_err, w1) \<Rightarrow>
                 update_room_inner_except self_update_room g bot_id sid settings err inner_err w1)
          else Some (Inl err, update_room_exception_handler sid err w))"

primrec update_room ::
    "nat \<Rightarrow> 's gateway \<Rightarrow> string \<Rightarrow> string \<Rightarrow> attrs \<Rightarrow> bool \<Rightarrow> 's world
      \<Rightarrow> ((py_exception + room_detail) \<times> 's world) option" where
  "update_room 0 g bot_id stream_id settings pre_check w = None"
| "update_room (Suc n) g bot_id stream_id settings pre_check w =
     (let sid = make_b64_id_safe stream_id
      in case update_room_try g sid settings pre_check w of
           (Inr room, w1) \<Rightarrow> Some (Inr room, w1)
         | (Inl err, w1) \<Rightarrow>
             update_room_except (update_room n g bot_id) g bot_id sid settings err w1)"

section \<open>Updating many rooms\<close>

text \<open>
  A \<open>V2AdminStreamInfo\<close>: its id and, when \<open>stream.attributes\<close> is there, the room
  name that the log line of line 317 reads (\<open>None\<close>: reading it raises
  \<open>AttributeError\<close>).
\<close>

record stream_info =
  info_id :: string
  info_attributes :: "string option"

text \<open>
  \<^verbatim>\<open>results = []
  async for stream in streams:
      try:
          stream_id = _make_b64_id_safe(stream.id)
          log.info('[{}] Updating Stream - {}'.format(stream_id, stream.attributes.room_name))
          updated_room = await self.update_room(stream_id, settings, pre_check)
          results.append(updated_room)
      except:
          log.error('[{}] There was an error updating room.'.format(stream_id))
  return results\<close>
  The streams are a finite sequence that yields without failing.
\<close>

fun update_rooms_loop ::
    "nat \<Rightarrow> 's gateway \<Rightarrow> string \<Rightarrow> stream_info list \<Rightarrow> attrs \<Rightarrow> bool
      \<Rightarrow> room_detail list \<Rightarrow> 's world \<Rightarrow> (room_detail list \<times> 's world) option" where
  "update_rooms_loop n g bot_id [] settings pre_check results w = Some (results, w)"
| "update_rooms_loop n g bot_id (stream # streams) settings pre_check results w =
     (let stream_id = make_b64_id_safe (info_id stream)
      in case info_attributes stream of
           None \<Rightarrow>
             update_rooms_loop n g bot_id streams settings pre_check results
               (log ERROR stream_id ''There was an error updating room.'' w)
         | Some room_name \<Rightarrow>
             (case update_room n g bot_id stream_id settings pre_check
                     (log INFO stream_id ''Updating Stream'' w) of
                None \<Rightarrow> None
              | Some (Inl _, w1) \<Rightarrow>
                  update_rooms_loop n g bot_id streams settings pre_check results
                    (log ERROR stream_id ''There was an error updating room.'' w1)
              | Some (Inr updated_room, w1) \<Rightarrow>
                  update_rooms_loop n g bot_id streams settings pre_check
                    (results @ [updated_room]) w1))"

definition update_rooms ::
    "nat \<Rightarrow> 's gateway \<Rightarrow> string \<Rightarrow> stream_info list \<Rightarrow> attrs \<Rightarrow> bool \<Rightarrow> 's world
      \<Rightarrow> (room_detail list \<times> 's world) option" where
  "update_rooms n g bot_id streams settings pre_check w =
     update_rooms_loop n g bot_id streams settings pre_check [] w"

section \<open>One row of \<open>update_rooms_from_csv\<close>\<close>






section \<open>Observing the gateway\<close>

text \<open>
  To state which calls reach the gateway, a gateway is wrapped so that it records
  every call with its outcome (\<open>None\<close>: the call returned) behind the pod's state.
\<close>

datatype call =
    GetRoomInfo string
  | UpdateRoom string attrs
  | AddMemberToRoom string string
  | PromoteUserToRoomOwner string string
  | DemoteOwnerToRoomParticipant string string
  | RemoveMemberFromRoom string string

type_synonym event = "call \<times> py_exception option"

definition outcome_of :: "py_exception + 'a \<Rightarrow> py_exception option" where
  "outcome_of r = (case r of Inl e \<Rightarrow> Some e | Inr _ \<Rightarrow> None)"

definition record_call ::
    "call \<Rightarrow> ('s \<Rightarrow> (py_exception + 'a) \<times> 's) \<Rightarrow> 's \<times> event list
      \<Rightarrow> (py_exception + 'a) \<times> ('s \<times> event list)" where
  "record_call c f st = (case f (fst st) of (r, s) \<Rightarrow> (r, (s, snd st @ [(c, outcome_of r)])))"

definition recording :: "'s gateway \<Rightarrow> ('s \<times> event list) gateway" where
  "recording g =
     \<lparr>gw_get_room_info = (\<lambda>sid. record_call (GetRoomInfo sid) (gw_get_room_info g sid)),
      gw_update_room = (\<lambda>sid st. record_call (UpdateRoom sid st) (gw_update_room g sid st)),
      gw_add_member_to_room =
        (\<lambda>u sid. record_call (AddMemberToRoom u sid) (gw_add_member_to_room g u sid)),
      gw_promote_user_to_room_owner =
        (\<lambda>u sid. record_call (PromoteUserToRoomOwner u sid) (gw_promote_user_to_room_owner g u sid)),
      gw_demote_owner_to_room_participant =
        (\<lambda>u sid. record_call (DemoteOwnerToRoomParticipant u sid)
                    (gw_demote_owner_to_room_participant g u sid)),
      gw_remove_member_from_room =
        (\<lambda>u sid. record_call (RemoveMemberFromRoom u sid) (gw_remove_member_from_room g u sid))\<rparr>"

text \<open>A write call is any call but the fetch of the room's state.\<close>

fun is_write :: "event \<Rightarrow> bool" where
  "is_write (GetRoomInfo _, _) = False"
| "is_write _ = True"

fun is_update_call :: "event \<Rightarrow> bool" where
  "is_update_call (UpdateRoom _ _, _) = True"
| "is_update_call _ = False"

text \<open>
  A gateway that answers from a script: each call takes the next reply, whatever
  the call is. It stands for a pod whose answers are known in advance.
\<close>

datatype reply = Raises py_exception | Returns room_detail | Done

definition next_detail :: "reply list \<Rightarrow> (py_exception + room_detail) \<times> reply list" where
  "next_detail rs =
     (case rs of
        [] \<Rightarrow> (Inl (OtherError ''end of script''), [])
      | Raises e # rest \<Rightarrow> (Inl e, rest)
      | Returns d # rest \<Rightarrow> (Inr d, rest)
      | Done # rest \<Rightarrow> (Inl (OtherError ''no room detail''), rest))"

definition next_done :: "reply list \<Rightarrow> (py_exception + unit) \<times> reply list" where
  "next_done rs =
     (case rs of
        [] \<Rightarrow> (Inl (OtherError ''end of script''), [])
      | Raises e # rest \<Rightarrow> (Inl e, rest)
      | _ # rest \<Rightarrow> (Inr (), rest))"

definition scripted :: "reply list gateway" where
  "scripted =
     \<lparr>gw_get_room_info = (\<lambda>sid. next_detail),
      gw_update_room = (\<lambda>sid st. next_detail),
      gw_add_member_to_room = (\<lambda>u sid. next_done),
      gw_promote_user_to_room_owner = (\<lambda>u sid. next_done),
      gw_demote_owner_to_room_participant = (\<lambda>u sid. next_done),
      gw_remove_member_from_room = (\<lambda>u sid. next_done)\<rparr>"

text \<open>
  Modelled from the spec: the bot's relation to a room, which lives in the remote
  pod. Section 6 of the specification names the four membership calls of the
  gateway; a call that returned changes the relation of the user it names to the
  room it names as its name says, and a call that raised changes nothing.
\<close>

datatype relation = NotMember | Member | Owner

fun relation_step :: "string \<Rightarrow> string \<Rightarrow> relation \<Rightarrow> event \<Rightarrow> relation" where
  "relation_step u sid r (AddMemberToRoom u' sid', None) =
     (if u' = u \<and> sid' = sid \<and> r = NotMember then Member else r)"
| "relation_step u sid r (PromoteUserToRoomOwner u' sid', None) =
     (if u' = u \<and> sid' = sid \<and> r = Member then Owner else r)"
| "relation_step u sid r (DemoteOwnerToRoomParticipant u' sid', None) =
     (if u' = u \<and> sid' = sid \<and> r = Owner then Member else r)"
| "relation_step u sid r (RemoveMemberFromRoom u' sid', None) =
     (if u' = u \<and> sid' = sid then NotMember else r)"
| "relation_step u sid r _ = r"

definition relation_after :: "string \<Rightarrow> string \<Rightarrow> relation \<Rightarrow> event list \<Rightarrow> relation" where
  "relation_after u sid r events = foldl (relation_step u sid) r events"

text \<open>An \<open>ApiException\<close> whose body is a JSON object with the given message.\<close>

definition refused :: "string \<Rightarrow> py_exception" where
  "refused message = ApiException (JsonMessage message)"

text \<open>Two calls of \<open>update_room\<close> in succession, with the same settings and the check on.\<close>

definition update_room_twice ::
    "nat \<Rightarrow> 's gateway \<Rightarrow> string \<Rightarrow> string \<Rightarrow> attrs \<Rightarrow> 's world
      \<Rightarrow> ((py_exception + room_detail) \<times> (py_exception + room_detail) \<times> 's world) option" where
  "update_room_twice n g bot_id stream_id settings w =
     (case update_room n g bot_id stream_id settings True w of
        None \<Rightarrow> None
      | Some (first, w1) \<Rightarrow>
          (case update_room n g bot_id stream_id settings True w1 of
             None \<Rightarrow> None
           | Some (second, w2) \<Rightarrow> Some (first, second, w2)))"

text \<open>A gateway that accepts every call and answers with the same room state.\<close>

definition accepting :: "room_detail \<Rightarrow> unit gateway" where
  "accepting room =
     \<lparr>gw_get_room_info = (\<lambda>sid s. (Inr room, s)),
      gw_update_room = (\<lambda>sid st s. (Inr room, s)),
      gw_add_member_to_room = (\<lambda>u sid s. (Inr (), s)),
      gw_promote_user_to_room_owner = (\<lambda>u sid s. (Inr (), s)),
      gw_demote_owner_to_room_participant = (\<lambda>u sid s. (Inr (), s)),
      gw_remove_member_from_room = (\<lambda>u sid s. (Inr (), s))\<rparr>"

text \<open>
  The room of the scenario: members can invite, and the desired settings turn that
  off.
\<close>

definition room_R :: room_detail where
  "room_R = \<lparr>room_attributes = [(''name'', PStr ''R''), (''members_can_invite'', PBool True)],
             room_system_info = [(''id'', PStr ''R'')]\<rparr>"

definition room_R_updated :: room_detail where
  "room_R_updated =
     \<lparr>room_attributes = [(''name'', PStr ''R''), (''members_can_invite'', PBool False)],
      room_system_info = [(''id'', PStr ''R'')]\<rparr>"

definition invite_off :: attrs where
  "invite_off = [(''members_can_invite'', PBool False)]"

text \<open>Three rooms for the bulk driver.\<close>

definition stream_A :: stream_info where
  "stream_A = \<lparr>info_id = ''A'', info_attributes = Some ''Room A''\<rparr>"

definition stream_B :: stream_info where
  "stream_B = \<lparr>info_id = ''B'', info_attributes = Some ''Room B''\<rparr>"

definition stream_C :: stream_info where
  "stream_C = \<lparr>info_id = ''C'', info_attributes = Some ''Room C''\<rparr>"

text \<open>
  The answers of the pod to the scripted gateway: A and C are fetched and updated,
  the update of B is refused for a reason the module does not know.
\<close>

definition script_ABC :: "reply list" where
  "script_ABC =
     [Returns room_R, Returns room_R_updated,
      Returns room_R, Raises (refused ''Internal server error''),
      Returns room_R, Returns room_R_updated]"

section \<open>The specification's wording, for comparison\<close>

text \<open>
  A string is a case-insensitive member of a list of lower-case words when it is one
  of the words with some of its letters in upper case.
\<close>

definition ascii_upper :: "char \<Rightarrow> char" where
  "ascii_upper d =
     (let n = (of_char d :: nat) in if 97 \<le> n \<and> n \<le> 122 then char_of (n - 32) else d)"

text \<open>The characters of the twelve words: lower-case ASCII letters and digits.\<close>

definition plain :: "char \<Rightarrow> bool" where
  "plain d = (let n = (of_char d :: nat) in (97 \<le> n \<and> n \<le> 122) \<or> (48 \<le> n \<and> n \<le> 57))"

definition ci_eq :: "string \<Rightarrow> string \<Rightarrow> bool" where
  "ci_eq s w = list_all2 (\<lambda>c d. c = d \<or> c = ascii_upper d) s w"

definition ci_member :: "string \<Rightarrow> string list \<Rightarrow> bool" where
  "ci_member s ws = list_ex (ci_eq s) ws"

text \<open>
  The modification predicate as the specification words it: some field that is
  present and not null in \<open>desired\<close> differs from the field of \<open>current\<close>, a field that
  \<open>current\<close> does not have counting as different.
\<close>

definition spec_is_modified :: "attrs \<Rightarrow> attrs \<Rightarrow> bool" where
  "spec_is_modified current desired =
     list_ex (\<lambda>field.
        case map_of desired field of
          None \<Rightarrow> False
        | Some v \<Rightarrow>
            v \<noteq> PNone \<and>
            (case map_of current field of None \<Rightarrow> True | Some w \<Rightarrow> \<not> py_eq v w))
       (map fst ROOM_TO_CSV_ROOM_MAP)"

text \<open>
  The bulk driver as the specification words it: one outcome for every room, in the
  order of the rooms, \<open>Inl\<close> for a room whose update raised.
\<close>

fun update_many ::
    "nat \<Rightarrow> 's gateway \<Rightarrow> string \<Rightarrow> stream_info list \<Rightarrow> attrs \<Rightarrow> bool \<Rightarrow> 's world
      \<Rightarrow> ((py_exception + room_detail) list \<times> 's world) option" where
  "update_many n g bot_id [] settings pre_check w = Some ([], w)"
| "update_many n g bot_id (stream # streams) settings pre_check w =
     (let stream_id = make_b64_id_safe (info_id stream)
      in case (case info_attributes stream of
                 None \<Rightarrow> Some (Inl AttributeError, w)
               | Some room_name \<Rightarrow>
                   update_room n g bot_id stream_id settings pre_check
                     (log INFO stream_id ''Updating Stream'' w)) of
           None \<Rightarrow> None
         | Some (outcome, w1) \<Rightarrow>
             (case update_many n g bot_id streams settings pre_check
                     (case outcome of
                        Inl _ \<Rightarrow> log ERROR stream_id ''There was an error updating room.'' w1
                      | Inr _ \<Rightarrow> w1) of
                None \<Rightarrow> None
              | Some (outcomes, w2) \<Rightarrow> Some (outcome # outcomes, w2)))"

text \<open>The outcomes that carry a room state.\<close>

fun room_states :: "(py_exception + room_detail) list \<Rightarrow> room_detail list" where
  "room_states [] = []"
| "room_states (Inl _ # outcomes) = room_states outcomes"
| "room_states (Inr room # outcomes) = room # room_states outcomes"

section \<open>Room states that survive the CSV round trip\<close>






section \<open>Properties of the identifier and the boolean parser\<close>

text \<open>
  C4. Normalising a room identifier twice is claimed to give what normalising it
  once gives. \<open>_make_b64_id_safe\<close> strips the padding before the whitespace, so an
  identifier whose padding is followed by a blank keeps its padding the first time
  and loses it the second time: on \<open>"a= "\<close> the first pass gives \<open>"a="\<close> and the second
  \<open>"a"\<close>. The example of the claim, \<open>"ab+c/d="\<close>, is normalised to \<open>"ab-c_d"\<close>.
\<close>

theorem make_b64_id_safe_not_idempotent:
  "make_b64_id_safe ''a= '' = ''a='' \<and>
   make_b64_id_safe (make_b64_id_safe ''a= '') = ''a'' \<and>
   make_b64_id_safe (make_b64_id_safe ''a= '') \<noteq> make_b64_id_safe ''a= '' \<and>
   make_b64_id_safe ''ab+c/d='' = ''ab-c_d''"
  by code_simp

lemma of_char_lower_char:
  "(of_char (lower_char c) :: nat) =
     (if (65 \<le> (of_char c :: nat) \<and> (of_char c :: nat) \<le> 90) \<or>
         (192 \<le> (of_char c :: nat) \<and> (of_char c :: nat) \<le> 222 \<and> (of_char c :: nat) \<noteq> 215)
      then of_char c + 32 else of_char c)"
  by (auto simp: lower_char_def Let_def)

lemma of_char_ascii_upper:
  "(of_char (ascii_upper d) :: nat) =
     (if 97 \<le> (of_char d :: nat) \<and> (of_char d :: nat) \<le> 122 then of_char d - 32 else of_char d)"
  by (auto simp: ascii_upper_def Let_def)

lemma lower_char_plain:
  assumes "plain d"
  shows "lower_char c = d \<longleftrightarrow> c = d \<or> c = ascii_upper d"
proof -
  have "(of_char (lower_char c) :: nat) = of_char d \<longleftrightarrow>
        (of_char c :: nat) = of_char d \<or> (of_char c :: nat) = of_char (ascii_upper d)"
    using assms unfolding of_char_lower_char of_char_ascii_upper plain_def Let_def by auto
  then show ?thesis by simp
qed

lemma lower_eq_ci_eq:
  "list_all plain w \<Longrightarrow> lower s = w \<longleftrightarrow> ci_eq s w"
proof (induction s arbitrary: w)
  case Nil
  then show ?case by (auto simp: lower_def ci_eq_def)
next
  case (Cons c s)
  show ?case
  proof (cases w)
    case Nil
    then show ?thesis by (simp add: lower_def ci_eq_def)
  next
    case (Cons d w')
    with Cons.prems have p: "plain d" "list_all plain w'" by simp_all
    from Cons.IH[OF p(2)] lower_char_plain[OF p(1)] show ?thesis
      unfolding Cons by (simp add: lower_def ci_eq_def)
  qed
qed

lemma words_plain: "list_all (list_all plain) (TRUE_STRINGS @ FALSE_STRINGS)"
  by code_simp

lemma lower_in_words:
  assumes "list_all (list_all plain) ws"
  shows "lower s \<in> set ws \<longleftrightarrow> ci_member s ws"
  using assms by (induction ws) (auto simp: ci_member_def lower_eq_ci_eq)

text \<open>
  C8. \<open>_string_to_bool\<close> returns true on every case-insensitive member of
  y, yes, t, true, on, 1 and false on every case-insensitive member of
  n, no, f, false, off, 0; the six examples of the claim are part of the statement.
  On every other string, \<open>maybe\<close> for one, it does not raise a validation error: the
  statement \<open>raise None\<close> names no exception, and executing it raises the
  \<open>TypeError\<close> of Python for raising something that is not an exception. The
  command-line parser \<open>parse_bool\<close> of \<open>modify_rooms.py\<close> raises
  \<open>ValueError('Value must be true/false')\<close> in the same situation.
\<close>

theorem string_to_bool_cases:
  "string_to_bool s =
     (if ci_member s TRUE_STRINGS then Inr True
      else if ci_member s FALSE_STRINGS then Inr False
      else Inl TypeError)
   \<and> string_to_bool ''YES'' = Inr True \<and> string_to_bool ''1'' = Inr True
   \<and> string_to_bool ''On'' = Inr True \<and> string_to_bool ''no'' = Inr False
   \<and> string_to_bool ''0'' = Inr False \<and> string_to_bool ''Off'' = Inr False
   \<and> string_to_bool ''maybe'' = Inl TypeError"
proof -
  have t: "lower s \<in> set TRUE_STRINGS \<longleftrightarrow> ci_member s TRUE_STRINGS"
    using words_plain by (intro lower_in_words) simp
  have f: "lower s \<in> set FALSE_STRINGS \<longleftrightarrow> ci_member s FALSE_STRINGS"
    using words_plain by (intro lower_in_words) simp
  have "string_to_bool s =
     (if ci_member s TRUE_STRINGS then Inr True
      else if ci_member s FALSE_STRINGS then Inr False
      else Inl TypeError)"
    by (simp add: string_to_bool_def Let_def t f)
  moreover have "string_to_bool ''YES'' = Inr True" by code_simp
  moreover have "string_to_bool ''1'' = Inr True" by code_simp
  moreover have "string_to_bool ''On'' = Inr True" by code_simp
  moreover have "string_to_bool ''no'' = Inr False" by code_simp
  moreover have "string_to_bool ''0'' = Inr False" by code_simp
  moreover have "string_to_bool ''Off'' = Inr False" by code_simp
  moreover have "string_to_bool ''maybe'' = Inl TypeError" by code_simp
  ultimately show ?thesis by blast
qed

theorem string_to_bool_cases_witness:
  "string_to_bool ''tRuE'' = Inr True \<and> string_to_bool ''F'' = Inr False
   \<and> string_to_bool ''maybe'' = Inl TypeError \<and> string_to_bool [] = Inl TypeError"
proof -
  have a: "ci_member ''tRuE'' TRUE_STRINGS" by code_simp
  have b: "\<not> ci_member ''F'' TRUE_STRINGS" "ci_member ''F'' FALSE_STRINGS" by code_simp+
  have c: "\<not> ci_member ''maybe'' TRUE_STRINGS" "\<not> ci_member ''maybe'' FALSE_STRINGS" by code_simp+
  have d: "\<not> ci_member [] TRUE_STRINGS" "\<not> ci_member [] FALSE_STRINGS" by code_simp+
  show ?thesis
    using string_to_bool_cases [of "''tRuE''"] string_to_bool_cases [of "''F''"]
      string_to_bool_cases [of "''maybe''"] string_to_bool_cases [of "[]"] a b c d
    by simp
qed

section \<open>Properties of the comparison and of the CSV mapping\<close>

lemma check_room_modified_loop_iff:
  "check_room_modified_loop ks old new \<longleftrightarrow>
     (\<exists>a\<in>set ks. \<exists>v w. map_of new a = Some v \<and> v \<noteq> PNone \<and>
        map_of old a = Some w \<and> \<not> py_eq v w)"
  by (induction ks) (auto split: option.splits)

text \<open>
  C6, as the code has it. \<open>_check_room_modified\<close> returns true exactly when one of
  the eight attributes of \<open>ROOM_TO_CSV_ROOM_MAP\<close> is stored in both objects, is not
  \<open>None\<close> in the desired settings and is unequal to the current value (a current
  value of \<open>None\<close> is unequal to any desired value). An attribute that the current
  object does not store is skipped by the guard \<open>attribute in old_settings\<close>, so it
  never makes the result true. When every desired attribute is missing or \<open>None\<close> the
  result is false, whatever the current attributes are.
\<close>

theorem check_room_modified_iff:
  "(check_room_modified current desired \<longleftrightarrow>
      (\<exists>field\<in>set (map fst ROOM_TO_CSV_ROOM_MAP). \<exists>v w.
          map_of desired field = Some v \<and> v \<noteq> PNone \<and>
          map_of current field = Some w \<and> \<not> py_eq v w))
   \<and> ((\<forall>field. map_of desired field = None \<or> map_of desired field = Some PNone)
        \<longrightarrow> \<not> check_room_modified current desired)"
proof -
  have iff: "check_room_modified current desired \<longleftrightarrow>
      (\<exists>field\<in>set (map fst ROOM_TO_CSV_ROOM_MAP). \<exists>v w.
          map_of desired field = Some v \<and> v \<noteq> PNone \<and>
          map_of current field = Some w \<and> \<not> py_eq v w)"
    unfolding check_room_modified_def by (rule check_room_modified_loop_iff)
  have "\<not> check_room_modified current desired"
    if "\<forall>field. map_of desired field = None \<or> map_of desired field = Some PNone"
    using that unfolding iff by (metis option.distinct(1) option.inject)
  with iff show ?thesis by blast
qed

theorem check_room_modified_iff_witness:
  "check_room_modified [(''members_can_invite'', PBool True)]
                       [(''members_can_invite'', PBool False)]
   \<and> check_room_modified [(''name'', PNone)] [(''name'', PStr ''Lobby'')]
   \<and> \<not> check_room_modified [(''members_can_invite'', PBool True)]
                            [(''members_can_invite'', PNone)]"
proof -
  have "\<exists>field\<in>set (map fst ROOM_TO_CSV_ROOM_MAP). \<exists>v w.
          map_of [(''members_can_invite'', PBool False)] field = Some v \<and> v \<noteq> PNone \<and>
          map_of [(''members_can_invite'', PBool True)] field = Some w \<and> \<not> py_eq v w"
    by (rule bexI [of _ "''members_can_invite''"]) (simp_all add: ROOM_TO_CSV_ROOM_MAP_def)
  then have a: "check_room_modified [(''members_can_invite'', PBool True)]
                               [(''members_can_invite'', PBool False)]"
    using check_room_modified_iff
            [of "[(''members_can_invite'', PBool True)]" "[(''members_can_invite'', PBool False)]"]
    by blast
  have "\<exists>field\<in>set (map fst ROOM_TO_CSV_ROOM_MAP). \<exists>v w.
          map_of [(''name'', PStr ''Lobby'')] field = Some v \<and> v \<noteq> PNone \<and>
          map_of [(''name'', PNone)] field = Some w \<and> \<not> py_eq v w"
    by (rule bexI [of _ "''name''"]) (simp_all add: ROOM_TO_CSV_ROOM_MAP_def)
  then have b: "check_room_modified [(''name'', PNone)] [(''name'', PStr ''Lobby'')]"
    using check_room_modified_iff [of "[(''name'', PNone)]" "[(''name'', PStr ''Lobby'')]"]
    by blast
  have c: "\<not> check_room_modified [(''members_can_invite'', PBool True)]
                                 [(''members_can_invite'', PNone)]"
    using check_room_modified_iff
            [of "[(''members_can_invite'', PBool True)]" "[(''members_can_invite'', PNone)]"]
    by simp
  from a b c show ?thesis by blast
qed

text \<open>
  C6, as the claim words it, fails where the current object does not store the
  attribute: the desired \<open>members_can_invite = False\<close> differs from a field that is
  absent, yet the code answers false.
\<close>

theorem check_room_modified_counterexample:
  "spec_is_modified [] [(''members_can_invite'', PBool False)] \<and>
   \<not> check_room_modified [] [(''members_can_invite'', PBool False)]"
  by code_simp

text \<open>
  C7. A row whose \<open>copyProtected\<close> cell parses to true is claimed to carry
  \<open>copy_protected = True\<close> into the attributes. The branch for the type \<open>bool+\<close>
  sets the value to \<open>None\<close> whatever the parsed boolean is, so the attribute is
  dropped: the row below yields no attribute at all, while the same cell in the
  column \<open>membersCanInvite\<close> is carried over.
\<close>

theorem csv_copy_protected_true_dropped:
  "csv_room_settings_to_v3_room_attributes
     [(''streamId'', PStr ''abc''), (''copyProtected'', PStr ''true'')] = Inr []
   \<and> string_to_bool ''true'' = Inr True
   \<and> csv_room_settings_to_v3_room_attributes
        [(''streamId'', PStr ''abc''), (''membersCanInvite'', PStr ''true'')]
       = Inr [(''members_can_invite'', PBool True)]"
  by code_simp





lemma type_facts:
  "\<not> startswith ''string*'' ''bool''" "\<not> startswith ''string'' ''bool''"
  "\<not> startswith ''string_b64'' ''bool''"
  "\<not> str_in ''_b64_'' ''string*''" "\<not> str_in ''_b64_'' ''string''"
  "\<not> str_in ''_b64_'' ''string_b64''"
  "startswith ''bool'' ''bool''" "startswith ''bool+'' ''bool''"
  "\<not> endswith ''bool'' ''+''" "endswith ''bool+'' ''+''"
  "\<not> endswith ''bool'' ''*''" "\<not> endswith ''bool+'' ''*''"
  "strip [] = []" "strip ''true'' = ''true''" "strip ''false'' = ''false''"
  "string_to_bool ''true'' = Inr True" "string_to_bool ''false'' = Inr False"
  by code_simp+















section \<open>Properties of the column lists\<close>

text \<open>
  C10. The header that \<open>update_rooms_from_csv\<close> and \<open>export_rooms_to_csv\<close> write is
  the module-level list \<open>CSV_STREAM_FIELD_NAMES\<close> after it has been extended in
  place: whatever the list holds before the call stays in it, followed by the
  non-modifiable columns when they are asked for and, for an update, by \<open>status\<close>
  and \<open>reason\<close>; the other two lists are left as they were. So the header depends
  on the calls made before: after one update the list holds \<open>status\<close> and \<open>reason\<close>,
  a later export writes them, and a second update writes them twice.
\<close>

theorem csv_field_names_grow:
  "snd (update_rooms_from_csv_header e h) CSV_STREAM_FIELD_NAMES =
     h CSV_STREAM_FIELD_NAMES
       @ (if e then h CSV_STREAM_NON_MODIFIABLE_FIELD_NAMES else [])
       @ h CSV_RESULTS_STREAM_FIELD_NAMES
   \<and> fst (update_rooms_from_csv_header e h) =
       snd (update_rooms_from_csv_header e h) CSV_STREAM_FIELD_NAMES
   \<and> snd (update_rooms_from_csv_header e h) CSV_STREAM_NON_MODIFIABLE_FIELD_NAMES =
       h CSV_STREAM_NON_MODIFIABLE_FIELD_NAMES
   \<and> snd (update_rooms_from_csv_header e h) CSV_RESULTS_STREAM_FIELD_NAMES =
       h CSV_RESULTS_STREAM_FIELD_NAMES
   \<and> snd (export_rooms_to_csv_header e h) CSV_STREAM_FIELD_NAMES =
       h CSV_STREAM_FIELD_NAMES @ (if e then h CSV_STREAM_NON_MODIFIABLE_FIELD_NAMES else [])
   \<and> fst (export_rooms_to_csv_header e h) =
       snd (export_rooms_to_csv_header e h) CSV_STREAM_FIELD_NAMES
   \<and> fst (update_rooms_from_csv_header False module_loaded) =
       [''streamId'', ''name'', ''description'', ''membersCanInvite'', ''discoverable'',
        ''copyProtected'', ''viewHistory'', ''pinnedMessageId'', ''status'', ''reason'']
   \<and> fst (export_rooms_to_csv_header False
             (snd (update_rooms_from_csv_header False module_loaded))) =
       [''streamId'', ''name'', ''description'', ''membersCanInvite'', ''discoverable'',
        ''copyProtected'', ''viewHistory'', ''pinnedMessageId'', ''status'', ''reason'']
   \<and> fst (update_rooms_from_csv_header False
             (snd (update_rooms_from_csv_header False module_loaded))) =
       [''streamId'', ''name'', ''description'', ''membersCanInvite'', ''discoverable'',
        ''copyProtected'', ''viewHistory'', ''pinnedMessageId'', ''status'', ''reason'',
        ''status'', ''reason'']
   \<and> fst (export_rooms_to_csv_header False
             (snd (update_rooms_from_csv_header True module_loaded))) =
       [''streamId'', ''name'', ''description'', ''membersCanInvite'', ''discoverable'',
        ''copyProtected'', ''viewHistory'', ''pinnedMessageId'',
        ''public (X)'', ''readOnly (X)'', ''crossPod (X)'', ''multiLateralRoom (X)'',
        ''active (X)'', ''keywords (X)'', ''createdByUserId (X)'', ''creationDate (X)'',
        ''status'', ''reason'']"
proof -
  have general:
    "snd (update_rooms_from_csv_header e h) CSV_STREAM_FIELD_NAMES =
       h CSV_STREAM_FIELD_NAMES
         @ (if e then h CSV_STREAM_NON_MODIFIABLE_FIELD_NAMES else [])
         @ h CSV_RESULTS_STREAM_FIELD_NAMES"
    "fst (update_rooms_from_csv_header e h) =
       snd (update_rooms_from_csv_header e h) CSV_STREAM_FIELD_NAMES"
    "snd (update_rooms_from_csv_header e h) CSV_STREAM_NON_MODIFIABLE_FIELD_NAMES =
       h CSV_STREAM_NON_MODIFIABLE_FIELD_NAMES"
    "snd (update_rooms_from_csv_header e h) CSV_RESULTS_STREAM_FIELD_NAMES =
       h CSV_RESULTS_STREAM_FIELD_NAMES"
    "snd (export_rooms_to_csv_header e h) CSV_STREAM_FIELD_NAMES =
       h CSV_STREAM_FIELD_NAMES @ (if e then h CSV_STREAM_NON_MODIFIABLE_FIELD_NAMES else [])"
    "fst (export_rooms_to_csv_header e h) =
       snd (export_rooms_to_csv_header e h) CSV_STREAM_FIELD_NAMES"
    by (simp_all add: update_rooms_from_csv_header_def export_rooms_to_csv_header_def
          list_iadd_def Let_def)
  have first: "fst (update_rooms_from_csv_header False module_loaded) =
       [''streamId'', ''name'', ''description'', ''membersCanInvite'', ''discoverable'',
        ''copyProtected'', ''viewHistory'', ''pinnedMessageId'', ''status'', ''reason'']"
    by code_simp
  have export: "fst (export_rooms_to_csv_header False
             (snd (update_rooms_from_csv_header False module_loaded))) =
       [''streamId'', ''name'', ''description'', ''membersCanInvite'', ''discoverable'',
        ''copyProtected'', ''viewHistory'', ''pinnedMessageId'', ''status'', ''reason'']"
    by code_simp
  have twice: "fst (update_rooms_from_csv_header False
             (snd (update_rooms_from_csv_header False module_loaded))) =
       [''streamId'', ''name'', ''description'', ''membersCanInvite'', ''discoverable'',
        ''copyProtected'', ''viewHistory'', ''pinnedMessageId'', ''status'', ''reason'',
        ''status'', ''reason'']"
    by code_simp
  have extended: "fst (export_rooms_to_csv_header False
             (snd (update_rooms_from_csv_header True module_loaded))) =
       [''streamId'', ''name'', ''description'', ''membersCanInvite'', ''discoverable'',
        ''copyProtected'', ''viewHistory'', ''pinnedMessageId'',
        ''public (X)'', ''readOnly (X)'', ''crossPod (X)'', ''multiLateralRoom (X)'',
        ''active (X)'', ''keywords (X)'', ''createdByUserId (X)'', ''creationDate (X)'',
        ''status'', ''reason'']"
    by code_simp
  from general first export twice extended show ?thesis by blast
qed

section \<open>Properties of \<open>update_room\<close>\<close>


lemma recording_get_room_info:
  "get_room_info (recording g) stream_id ((s, tr), lg) =
     (case gw_get_room_info g (make_b64_id_safe stream_id) s of
        (Inl e, s') \<Rightarrow>
          (Inl e, ((s', tr @ [(GetRoomInfo (make_b64_id_safe stream_id), Some e)]),
                   lg @ [(DEBUG, make_b64_id_safe stream_id, ''Getting room settings.'')]))
      | (Inr d, s') \<Rightarrow>
          (Inr d, ((s', tr @ [(GetRoomInfo (make_b64_id_safe stream_id), None)]),
                   lg @ [(DEBUG, make_b64_id_safe stream_id, ''Getting room settings.''),
                         (INFO, make_b64_id_safe stream_id, ''Retreived room info.''),
                         (DEBUG, make_b64_id_safe stream_id, ''Room Info'')])))"
  by (simp add: get_room_info_def Let_def call_gateway_def log_def recording_def
        record_call_def outcome_of_def split: prod.splits sum.splits)

lemma recording_update_room_write:
  "update_room_write (recording g) sid settings ((s, tr), lg) =
     (case gw_update_room g sid settings s of
        (Inl e, s') \<Rightarrow>
          (Inl e, ((s', tr @ [(UpdateRoom sid settings, Some e)]),
                   lg @ [(DEBUG, sid, ''Calling update_room'')]))
      | (Inr d, s') \<Rightarrow>
          (Inr d, ((s', tr @ [(UpdateRoom sid settings, None)]),
                   lg @ [(DEBUG, sid, ''Calling update_room''),
                         (INFO, sid, ''Updated Stream - New Settings'')])))"
  by (simp add: update_room_write_def call_gateway_def log_def recording_def
        record_call_def outcome_of_def split: prod.splits sum.splits)

lemma recording_promote_self_to_owner:
  "promote_self_to_owner (recording g) bot_id sid ((s, tr), lg) =
     (case gw_promote_user_to_room_owner g bot_id sid s of
        (Inl e, s') \<Rightarrow> (Inl e, ((s', tr @ [(PromoteUserToRoomOwner bot_id sid, Some e)]), lg))
      | (Inr u, s') \<Rightarrow>
          (Inr (), ((s', tr @ [(PromoteUserToRoomOwner bot_id sid, None)]),
                    lg @ [(DEBUG, sid, ''Bot promoted to owner.'')])))"
  by (simp add: promote_self_to_owner_def call_gateway_def log_def recording_def
        record_call_def outcome_of_def split: prod.splits sum.splits)

lemma recording_remove_self_from_room:
  "remove_self_from_room (recording g) bot_id sid ((s, tr), lg) =
     (case gw_remove_member_from_room g bot_id sid s of
        (Inl e, s') \<Rightarrow> (Inl e, ((s', tr @ [(RemoveMemberFromRoom bot_id sid, Some e)]), lg))
      | (Inr u, s') \<Rightarrow>
          (Inr (), ((s', tr @ [(RemoveMemberFromRoom bot_id sid, None)]),
                    lg @ [(DEBUG, sid, ''Bot removed from room.'')])))"
  by (simp add: remove_self_from_room_def call_gateway_def log_def recording_def
        record_call_def outcome_of_def split: prod.splits sum.splits)

lemma recording_add_self_to_room_ok:
  "gw_add_member_to_room g bot_id sid s = (Inr u, s') \<Longrightarrow>
   add_self_to_room (recording g) bot_id sid ((s, tr), lg) =
     (Inr (), ((s', tr @ [(AddMemberToRoom bot_id sid, None)]),
               lg @ [(DEBUG, sid, ''Bot added to room.'')]))"
  by (simp add: add_self_to_room_def call_gateway_def log_def recording_def
        record_call_def outcome_of_def)

lemma recording_demote_self_for_room_ok:
  "gw_demote_owner_to_room_participant g bot_id sid s = (Inr u, s') \<Longrightarrow>
   demote_self_for_room (recording g) bot_id sid ((s, tr), lg) =
     (Inr (), ((s', tr @ [(DemoteOwnerToRoomParticipant bot_id sid, None)]),
               lg @ [(DEBUG, sid, ''Bot demoted from owner.'')]))"
  by (simp add: demote_self_for_room_def call_gateway_def log_def recording_def
        record_call_def outcome_of_def)

lemma recording_demote_self_for_room_only_owner:
  "gw_demote_owner_to_room_participant g bot_id sid s =
     (Inl (refused NOT_ABLE_TO_DEMOTE_ONLY_OWNER), s') \<Longrightarrow>
   demote_self_for_room (recording g) bot_id sid ((s, tr), lg) =
     (Inr (), ((s', tr @ [(DemoteOwnerToRoomParticipant bot_id sid,
                           Some (refused NOT_ABLE_TO_DEMOTE_ONLY_OWNER))]),
               lg @ [(ERROR, sid, ''Unable to demote bot as it is the only owner.'')]))"
  by (simp add: demote_self_for_room_def call_gateway_def log_def recording_def
        record_call_def outcome_of_def refused_def)

text \<open>The try body, after the optional fetch.\<close>

lemma recording_update_room_try:
  assumes "if pre_check
           then gw_get_room_info g (make_b64_id_safe sid) s = (Inr current, s0) \<and>
                check_room_modified (room_attributes current) settings
           else s0 = s"
  shows "\<exists>lg0. update_room_try (recording g) sid settings pre_check ((s, []), lg) =
           update_room_write (recording g) sid settings
             ((s0, if pre_check then [(GetRoomInfo (make_b64_id_safe sid), None)] else []), lg0)"
  using assms
  by (cases pre_check) (auto simp: update_room_try_def recording_get_room_info)


lemma example_facts:
  "''R'' = make_b64_id_safe ''R''"
  "check_room_modified (room_attributes room_R) invite_off"
  "\<not> check_room_modified (room_attributes room_R_updated) invite_off"
  by code_simp+

lemmas scripted_defs = scripted_def next_detail_def next_done_def


lemma recording_update_room_try_general:
  assumes "if pre_check
           then gw_get_room_info g (make_b64_id_safe sid) s = (Inr current, s0) \<and>
                check_room_modified (room_attributes current) settings
           else s0 = s"
  shows "\<exists>lg0. update_room_try (recording g) sid settings pre_check ((s, tr), lg) =
           update_room_write (recording g) sid settings
             ((s0, tr @ (if pre_check then [(GetRoomInfo (make_b64_id_safe sid), None)] else [])), lg0)"
  using assms
  by (cases pre_check) (auto simp: update_room_try_def recording_get_room_info)

lemma update_room_promotion_path:
  assumes sid: "sid = make_b64_id_safe stream_id" and sid2: "sid2 = make_b64_id_safe sid"
    and fetch: "if pre_check
                then gw_get_room_info g sid2 s = (Inr current, s0) \<and>
                     check_room_modified (room_attributes current) settings
                else s0 = s"
    and update1: "gw_update_room g sid settings s0 = (Inl (refused NOT_ROOM_OWNER_MESSAGE), s1)"
    and path: "gw_promote_user_to_room_owner g bot_id sid s1 = (Inr (), s2) \<and>
      gw_update_room g sid2 settings s2 = (Inr updated, s3) \<and>
      gw_demote_owner_to_room_participant g bot_id sid s3 = (Inr (), s4)"
  shows "(\<exists>lg'. update_room (Suc (Suc n)) (recording g) bot_id stream_id settings pre_check
                ((s, []), lg) =
              Some (Inr updated,
                ((s4, (if pre_check then [(GetRoomInfo sid2, None)] else []) @
                      [(UpdateRoom sid settings, Some (refused NOT_ROOM_OWNER_MESSAGE)),
                       (PromoteUserToRoomOwner bot_id sid, None),
                       (UpdateRoom sid2 settings, None),
                       (DemoteOwnerToRoomParticipant bot_id sid, None)]), lg'))) \<and>
      relation_after bot_id sid Member
         ((if pre_check then [(GetRoomInfo sid2, None)] else []) @
          [(UpdateRoom sid settings, Some (refused NOT_ROOM_OWNER_MESSAGE)),
           (PromoteUserToRoomOwner bot_id sid, None),
           (UpdateRoom sid2 settings, None),
           (DemoteOwnerToRoomParticipant bot_id sid, None)]) = Member"
proof -
  from recording_update_room_try [of pre_check g sid s current s0 settings lg] fetch sid2
  obtain lg0 where body: "update_room_try (recording g) sid settings pre_check ((s, []), lg) =
           update_room_write (recording g) sid settings
             ((s0, if pre_check then [(GetRoomInfo sid2, None)] else []), lg0)"
    by auto
  have retry: "update_room (Suc n) (recording g) bot_id sid settings False ((s', tr), l) =
                 Some (Inr updated, ((s'', tr @ [(UpdateRoom sid2 settings, None)]),
                   l @ [(DEBUG, sid2, ''Calling update_room''),
                        (INFO, sid2, ''Updated Stream - New Settings'')]))"
    if "gw_update_room g sid2 settings s' = (Inr updated, s'')" for tr l s' s''
    using that sid2 by (simp add: Let_def update_room_try_def recording_update_room_write)
  show ?thesis
    unfolding update_room.simps(2) [of "Suc n"] Let_def sid [symmetric] body
    using update1 path
    by (simp add: recording_update_room_write refused_def update_room_except_def
          update_room_as_new_owner_def promote_self_and_update_room_def
          recording_promote_self_to_owner recording_demote_self_for_room_ok log_def retry
          relation_after_def
          del: update_room.simps)
qed

lemma update_room_only_owner_path:
  assumes sid: "sid = make_b64_id_safe stream_id" and sid2: "sid2 = make_b64_id_safe sid"
    and fetch: "if pre_check
                then gw_get_room_info g sid2 s = (Inr current, s0) \<and>
                     check_room_modified (room_attributes current) settings
                else s0 = s"
    and update1: "gw_update_room g sid settings s0 = (Inl (refused NOT_ROOM_OWNER_MESSAGE), s1)"
    and path: "gw_promote_user_to_room_owner g bot_id sid s1 = (Inr (), s2) \<and>
      gw_update_room g sid2 settings s2 = (Inr updated, s3) \<and>
      gw_demote_owner_to_room_participant g bot_id sid s3 =
        (Inl (refused NOT_ABLE_TO_DEMOTE_ONLY_OWNER), s4)"
  shows "(\<exists>lg'. update_room (Suc (Suc n)) (recording g) bot_id stream_id settings pre_check
                ((s, []), lg) =
              Some (Inr updated,
                ((s4, (if pre_check then [(GetRoomInfo sid2, None)] else []) @
                      [(UpdateRoom sid settings, Some (refused NOT_ROOM_OWNER_MESSAGE)),
                       (PromoteUserToRoomOwner bot_id sid, None),
                       (UpdateRoom sid2 settings, None),
                       (DemoteOwnerToRoomParticipant bot_id sid,
                          Some (refused NOT_ABLE_TO_DEMOTE_ONLY_OWNER))]), lg'))
              \<and> (ERROR, sid, ''Unable to demote bot as it is the only owner.'') \<in> set lg')"
proof -
  from recording_update_room_try [of pre_check g sid s current s0 settings lg] fetch sid2
  obtain lg0 where body: "update_room_try (recording g) sid settings pre_check ((s, []), lg) =
           update_room_write (recording g) sid settings
             ((s0, if pre_check then [(GetRoomInfo sid2, None)] else []), lg0)"
    by auto
  have retry: "update_room (Suc n) (recording g) bot_id sid settings False ((s', tr), l) =
                 Some (Inr updated, ((s'', tr @ [(UpdateRoom sid2 settings, None)]),
                   l @ [(DEBUG, sid2, ''Calling update_room''),
                        (INFO, sid2, ''Updated Stream - New Settings'')]))"
    if "gw_update_room g sid2 settings s' = (Inr updated, s'')" for tr l s' s''
    using that sid2 by (simp add: Let_def update_room_try_def recording_update_room_write)
  show ?thesis
    unfolding update_room.simps(2) [of "Suc n"] Let_def sid [symmetric] body
    using update1 path
          recording_demote_self_for_room_only_owner [of g bot_id sid s3 s4]
    by (simp add: recording_update_room_write refused_def update_room_except_def
          update_room_as_new_owner_def promote_self_and_update_room_def
          recording_promote_self_to_owner log_def retry
          del: update_room.simps)
qed

lemma update_room_membership_path:
  assumes sid: "sid = make_b64_id_safe stream_id" and sid2: "sid2 = make_b64_id_safe sid"
    and fetch: "if pre_check
                then gw_get_room_info g sid2 s = (Inr current, s0) \<and>
                     check_room_modified (room_attributes current) settings
                else s0 = s"
    and update1: "gw_update_room g sid settings s0 = (Inl (refused NOT_ROOM_OWNER_MESSAGE), s1)"
    and path: "gw_promote_user_to_room_owner g bot_id sid s1 =
        (Inl (refused (NOT_ROOM_MEMBER_MESSAGE bot_id)), s2) \<and>
      gw_add_member_to_room g bot_id sid s2 = (Inr (), s3) \<and>
      gw_promote_user_to_room_owner g bot_id sid s3 = (Inr (), s4) \<and>
      gw_update_room g sid2 settings s4 = (Inr updated, s5) \<and>
      gw_remove_member_from_room g bot_id sid s5 = (Inr (), s6)"
  shows "(\<exists>lg'. update_room (Suc (Suc n)) (recording g) bot_id stream_id settings pre_check
                ((s, []), lg) =
              Some (Inr updated,
                ((s6, (if pre_check then [(GetRoomInfo sid2, None)] else []) @
                      [(UpdateRoom sid settings, Some (refused NOT_ROOM_OWNER_MESSAGE)),
                       (PromoteUserToRoomOwner bot_id sid,
                          Some (refused (NOT_ROOM_MEMBER_MESSAGE bot_id))),
                       (AddMemberToRoom bot_id sid, None),
                       (PromoteUserToRoomOwner bot_id sid, None),
                       (UpdateRoom sid2 settings, None),
                       (RemoveMemberFromRoom bot_id sid, None)]), lg'))) \<and>
      relation_after bot_id sid NotMember
         ((if pre_check then [(GetRoomInfo sid2, None)] else []) @
          [(UpdateRoom sid settings, Some (refused NOT_ROOM_OWNER_MESSAGE)),
           (PromoteUserToRoomOwner bot_id sid,
              Some (refused (NOT_ROOM_MEMBER_MESSAGE bot_id))),
           (AddMemberToRoom bot_id sid, None),
           (PromoteUserToRoomOwner bot_id sid, None),
           (UpdateRoom sid2 settings, None),
           (RemoveMemberFromRoom bot_id sid, None)]) = NotMember"
proof -
  from recording_update_room_try [of pre_check g sid s current s0 settings lg] fetch sid2
  obtain lg0 where body: "update_room_try (recording g) sid settings pre_check ((s, []), lg) =
           update_room_write (recording g) sid settings
             ((s0, if pre_check then [(GetRoomInfo sid2, None)] else []), lg0)"
    by auto
  have retry: "update_room (Suc n) (recording g) bot_id sid settings False ((s', tr), l) =
                 Some (Inr updated, ((s'', tr @ [(UpdateRoom sid2 settings, None)]),
                   l @ [(DEBUG, sid2, ''Calling update_room''),
                        (INFO, sid2, ''Updated Stream - New Settings'')]))"
    if "gw_update_room g sid2 settings s' = (Inr updated, s'')" for tr l s' s''
    using that sid2 by (simp add: Let_def update_room_try_def recording_update_room_write)
  show ?thesis
    unfolding update_room.simps(2) [of "Suc n"] Let_def sid [symmetric] body
    using update1 path
    by (simp add: recording_update_room_write refused_def update_room_except_def
          update_room_as_new_owner_def update_room_inner_except_def
          update_room_as_new_member_def promote_self_and_update_room_def
          add_self_and_update_room_def recording_promote_self_to_owner
          recording_add_self_to_room_ok recording_remove_self_from_room log_def retry
          relation_after_def
          del: update_room.simps)
qed

text \<open>
  C1. After a refused update (the bot is not an owner), three ways to a result.
  Promotion only: the promotion and the retried update are accepted and so is the
  demotion; the calls are update, promotion, update, demotion, the result is the
  state returned by the retried update, and a member is a member again. The same
  with a demotion refused because the bot is the only owner: the refusal is logged
  as an error, nothing is raised and the result is still that state. Membership:
  the promotion is refused because the bot is not a member, the addition, the
  promotion, the retried update and the removal are accepted; the result is the
  state returned by the retried update, and a bot that was not a member is not a
  member again.
\<close>

theorem update_room_recovery_restores_relation:
  assumes sid: "sid = make_b64_id_safe stream_id" and sid2: "sid2 = make_b64_id_safe sid"
    and fetch: "if pre_check
                then gw_get_room_info g sid2 s = (Inr current, s0) \<and>
                     check_room_modified (room_attributes current) settings
                else s0 = s"
    and update1: "gw_update_room g sid settings s0 = (Inl (refused NOT_ROOM_OWNER_MESSAGE), s1)"
  shows
    "(gw_promote_user_to_room_owner g bot_id sid s1 = (Inr (), s2) \<and>
      gw_update_room g sid2 settings s2 = (Inr updated, s3) \<and>
      gw_demote_owner_to_room_participant g bot_id sid s3 = (Inr (), s4)
      \<longrightarrow>
      (\<exists>lg'. update_room (Suc (Suc n)) (recording g) bot_id stream_id settings pre_check
                ((s, []), lg) =
              Some (Inr updated,
                ((s4, (if pre_check then [(GetRoomInfo sid2, None)] else []) @
                      [(UpdateRoom sid settings, Some (refused NOT_ROOM_OWNER_MESSAGE)),
                       (PromoteUserToRoomOwner bot_id sid, None),
                       (UpdateRoom sid2 settings, None),
                       (DemoteOwnerToRoomParticipant bot_id sid, None)]), lg'))) \<and>
      relation_after bot_id sid Member
         ((if pre_check then [(GetRoomInfo sid2, None)] else []) @
          [(UpdateRoom sid settings, Some (refused NOT_ROOM_OWNER_MESSAGE)),
           (PromoteUserToRoomOwner bot_id sid, None),
           (UpdateRoom sid2 settings, None),
           (DemoteOwnerToRoomParticipant bot_id sid, None)]) = Member)
   \<and> (gw_promote_user_to_room_owner g bot_id sid s1 = (Inr (), s2) \<and>
      gw_update_room g sid2 settings s2 = (Inr updated, s3) \<and>
      gw_demote_owner_to_room_participant g bot_id sid s3 =
        (Inl (refused NOT_ABLE_TO_DEMOTE_ONLY_OWNER), s4)
      \<longrightarrow>
      (\<exists>lg'. update_room (Suc (Suc n)) (recording g) bot_id stream_id settings pre_check
                ((s, []), lg) =
              Some (Inr updated,
                ((s4, (if pre_check then [(GetRoomInfo sid2, None)] else []) @
                      [(UpdateRoom sid settings, Some (refused NOT_ROOM_OWNER_MESSAGE)),
                       (PromoteUserToRoomOwner bot_id sid, None),
                       (UpdateRoom sid2 settings, None),
                       (DemoteOwnerToRoomParticipant bot_id sid,
                          Some (refused NOT_ABLE_TO_DEMOTE_ONLY_OWNER))]), lg'))
              \<and> (ERROR, sid, ''Unable to demote bot as it is the only owner.'') \<in> set lg'))
   \<and> (gw_promote_user_to_room_owner g bot_id sid s1 =
        (Inl (refused (NOT_ROOM_MEMBER_MESSAGE bot_id)), s2) \<and>
      gw_add_member_to_room g bot_id sid s2 = (Inr (), s3) \<and>
      gw_promote_user_to_room_owner g bot_id sid s3 = (Inr (), s4) \<and>
      gw_update_room g sid2 settings s4 = (Inr updated, s5) \<and>
      gw_remove_member_from_room g bot_id sid s5 = (Inr (), s6)
      \<longrightarrow>
      (\<exists>lg'. update_room (Suc (Suc n)) (recording g) bot_id stream_id settings pre_check
                ((s, []), lg) =
              Some (Inr updated,
                ((s6, (if pre_check then [(GetRoomInfo sid2, None)] else []) @
                      [(UpdateRoom sid settings, Some (refused NOT_ROOM_OWNER_MESSAGE)),
                       (PromoteUserToRoomOwner bot_id sid,
                          Some (refused (NOT_ROOM_MEMBER_MESSAGE bot_id))),
                       (AddMemberToRoom bot_id sid, None),
                       (PromoteUserToRoomOwner bot_id sid, None),
                       (UpdateRoom sid2 settings, None),
                       (RemoveMemberFromRoom bot_id sid, None)]), lg'))) \<and>
      relation_after bot_id sid NotMember
         ((if pre_check then [(GetRoomInfo sid2, None)] else []) @
          [(UpdateRoom sid settings, Some (refused NOT_ROOM_OWNER_MESSAGE)),
           (PromoteUserToRoomOwner bot_id sid,
              Some (refused (NOT_ROOM_MEMBER_MESSAGE bot_id))),
           (AddMemberToRoom bot_id sid, None),
           (PromoteUserToRoomOwner bot_id sid, None),
           (UpdateRoom sid2 settings, None),
           (RemoveMemberFromRoom bot_id sid, None)]) = NotMember)"
  using update_room_promotion_path [OF assms, of bot_id s2 updated s3 s4 n lg]
        update_room_only_owner_path [OF assms, of bot_id s2 updated s3 s4 n lg]
        update_room_membership_path [OF assms, of bot_id s2 s3 s4 updated s5 s6 n lg]
  by blast

theorem update_room_recovery_restores_relation_witness:
  "(\<exists>lg'. update_room (Suc (Suc 0)) (recording scripted) ''7'' ''R'' invite_off False
            (([Raises (refused NOT_ROOM_OWNER_MESSAGE), Done, Returns room_R_updated, Done], []), [])
          = Some (Inr room_R_updated,
                (([], [(UpdateRoom ''R'' invite_off, Some (refused NOT_ROOM_OWNER_MESSAGE)),
                       (PromoteUserToRoomOwner ''7'' ''R'', None),
                       (UpdateRoom ''R'' invite_off, None),
                       (DemoteOwnerToRoomParticipant ''7'' ''R'', None)]), lg')))
   \<and> (\<exists>lg'. update_room (Suc (Suc 0)) (recording scripted) ''7'' ''R'' invite_off False
            (([Raises (refused NOT_ROOM_OWNER_MESSAGE), Done, Returns room_R_updated,
               Raises (refused NOT_ABLE_TO_DEMOTE_ONLY_OWNER)], []), [])
          = Some (Inr room_R_updated,
                (([], [(UpdateRoom ''R'' invite_off, Some (refused NOT_ROOM_OWNER_MESSAGE)),
                       (PromoteUserToRoomOwner ''7'' ''R'', None),
                       (UpdateRoom ''R'' invite_off, None),
                       (DemoteOwnerToRoomParticipant ''7'' ''R'',
                          Some (refused NOT_ABLE_TO_DEMOTE_ONLY_OWNER))]), lg'))
          \<and> (ERROR, ''R'', ''Unable to demote bot as it is the only owner.'') \<in> set lg')
   \<and> (\<exists>lg'. update_room (Suc (Suc 0)) (recording scripted) ''7'' ''R'' invite_off False
            (([Raises (refused NOT_ROOM_OWNER_MESSAGE),
               Raises (refused (NOT_ROOM_MEMBER_MESSAGE ''7'')), Done, Done,
               Returns room_R_updated, Done], []), [])
          = Some (Inr room_R_updated,
                (([], [(UpdateRoom ''R'' invite_off, Some (refused NOT_ROOM_OWNER_MESSAGE)),
                       (PromoteUserToRoomOwner ''7'' ''R'',
                          Some (refused (NOT_ROOM_MEMBER_MESSAGE ''7''))),
                       (AddMemberToRoom ''7'' ''R'', None),
                       (PromoteUserToRoomOwner ''7'' ''R'', None),
                       (UpdateRoom ''R'' invite_off, None),
                       (RemoveMemberFromRoom ''7'' ''R'', None)]), lg')))
   \<and> relation_after ''7'' ''R'' Member
         [(UpdateRoom ''R'' invite_off, Some (refused NOT_ROOM_OWNER_MESSAGE)),
          (PromoteUserToRoomOwner ''7'' ''R'', None),
          (UpdateRoom ''R'' invite_off, None),
          (DemoteOwnerToRoomParticipant ''7'' ''R'', None)] = Member
   \<and> relation_after ''7'' ''R'' NotMember
         [(UpdateRoom ''R'' invite_off, Some (refused NOT_ROOM_OWNER_MESSAGE)),
          (PromoteUserToRoomOwner ''7'' ''R'', Some (refused (NOT_ROOM_MEMBER_MESSAGE ''7''))),
          (AddMemberToRoom ''7'' ''R'', None),
          (PromoteUserToRoomOwner ''7'' ''R'', None),
          (UpdateRoom ''R'' invite_off, None),
          (RemoveMemberFromRoom ''7'' ''R'', None)] = NotMember"
proof -
  have nofetch: "if False then gw_get_room_info scripted ''R'' S = (Inr room_R, S) \<and>
                     check_room_modified (room_attributes room_R) invite_off
                 else S = S" for S :: "reply list"
    by simp
  have u1: "gw_update_room scripted ''R'' invite_off (Raises (refused NOT_ROOM_OWNER_MESSAGE) # S) =
              (Inl (refused NOT_ROOM_OWNER_MESSAGE), S)" for S
    by (simp add: scripted_defs)
  have promotion:
    "gw_promote_user_to_room_owner scripted ''7'' ''R'' [Done, Returns room_R_updated, Done] =
       (Inr (), [Returns room_R_updated, Done]) \<and>
     gw_update_room scripted ''R'' invite_off [Returns room_R_updated, Done] =
       (Inr room_R_updated, [Done]) \<and>
     gw_demote_owner_to_room_participant scripted ''7'' ''R'' [Done] = (Inr (), [])"
    by (simp add: scripted_defs)
  have only_owner:
    "gw_promote_user_to_room_owner scripted ''7'' ''R''
       [Done, Returns room_R_updated, Raises (refused NOT_ABLE_TO_DEMOTE_ONLY_OWNER)] =
       (Inr (), [Returns room_R_updated, Raises (refused NOT_ABLE_TO_DEMOTE_ONLY_OWNER)]) \<and>
     gw_update_room scripted ''R'' invite_off
       [Returns room_R_updated, Raises (refused NOT_ABLE_TO_DEMOTE_ONLY_OWNER)] =
       (Inr room_R_updated, [Raises (refused NOT_ABLE_TO_DEMOTE_ONLY_OWNER)]) \<and>
     gw_demote_owner_to_room_participant scripted ''7'' ''R''
       [Raises (refused NOT_ABLE_TO_DEMOTE_ONLY_OWNER)] =
       (Inl (refused NOT_ABLE_TO_DEMOTE_ONLY_OWNER), [])"
    by (simp add: scripted_defs)
  have membership:
    "gw_promote_user_to_room_owner scripted ''7'' ''R''
       [Raises (refused (NOT_ROOM_MEMBER_MESSAGE ''7'')), Done, Done, Returns room_R_updated, Done] =
       (Inl (refused (NOT_ROOM_MEMBER_MESSAGE ''7'')), [Done, Done, Returns room_R_updated, Done]) \<and>
     gw_add_member_to_room scripted ''7'' ''R'' [Done, Done, Returns room_R_updated, Done] =
       (Inr (), [Done, Returns room_R_updated, Done]) \<and>
     gw_promote_user_to_room_owner scripted ''7'' ''R'' [Done, Returns room_R_updated, Done] =
       (Inr (), [Returns room_R_updated, Done]) \<and>
     gw_update_room scripted ''R'' invite_off [Returns room_R_updated, Done] =
       (Inr room_R_updated, [Done]) \<and>
     gw_remove_member_from_room scripted ''7'' ''R'' [Done] = (Inr (), [])"
    by (simp add: scripted_defs)
  note t = update_room_recovery_restores_relation
             [where n = 0 and lg = "[]", OF example_facts(1) example_facts(1) nofetch u1]
  from t [THEN conjunct1, rule_format, OF promotion]
  have a: "(\<exists>lg'. update_room (Suc (Suc 0)) (recording scripted) ''7'' ''R'' invite_off False
            (([Raises (refused NOT_ROOM_OWNER_MESSAGE), Done, Returns room_R_updated, Done], []), [])
          = Some (Inr room_R_updated,
                (([], [(UpdateRoom ''R'' invite_off, Some (refused NOT_ROOM_OWNER_MESSAGE)),
                       (PromoteUserToRoomOwner ''7'' ''R'', None),
                       (UpdateRoom ''R'' invite_off, None),
                       (DemoteOwnerToRoomParticipant ''7'' ''R'', None)]), lg')))
      \<and> relation_after ''7'' ''R'' Member
         [(UpdateRoom ''R'' invite_off, Some (refused NOT_ROOM_OWNER_MESSAGE)),
          (PromoteUserToRoomOwner ''7'' ''R'', None),
          (UpdateRoom ''R'' invite_off, None),
          (DemoteOwnerToRoomParticipant ''7'' ''R'', None)] = Member"
    by simp
  from t [THEN conjunct2, THEN conjunct1, rule_format, OF only_owner]
  have b: "\<exists>lg'. update_room (Suc (Suc 0)) (recording scripted) ''7'' ''R'' invite_off False
            (([Raises (refused NOT_ROOM_OWNER_MESSAGE), Done, Returns room_R_updated,
               Raises (refused NOT_ABLE_TO_DEMOTE_ONLY_OWNER)], []), [])
          = Some (Inr room_R_updated,
                (([], [(UpdateRoom ''R'' invite_off, Some (refused NOT_ROOM_OWNER_MESSAGE)),
                       (PromoteUserToRoomOwner ''7'' ''R'', None),
                       (UpdateRoom ''R'' invite_off, None),
                       (DemoteOwnerToRoomParticipant ''7'' ''R'',
                          Some (refused NOT_ABLE_TO_DEMOTE_ONLY_OWNER))]), lg'))
          \<and> (ERROR, ''R'', ''Unable to demote bot as it is the only owner.'') \<in> set lg'"
    by simp
  from t [THEN conjunct2, THEN conjunct2, rule_format, OF membership]
  have c: "(\<exists>lg'. update_room (Suc (Suc 0)) (recording scripted) ''7'' ''R'' invite_off False
            (([Raises (refused NOT_ROOM_OWNER_MESSAGE),
               Raises (refused (NOT_ROOM_MEMBER_MESSAGE ''7'')), Done, Done,
               Returns room_R_updated, Done], []), [])
          = Some (Inr room_R_updated,
                (([], [(UpdateRoom ''R'' invite_off, Some (refused NOT_ROOM_OWNER_MESSAGE)),
                       (PromoteUserToRoomOwner ''7'' ''R'',
                          Some (refused (NOT_ROOM_MEMBER_MESSAGE ''7''))),
                       (AddMemberToRoom ''7'' ''R'', None),
                       (PromoteUserToRoomOwner ''7'' ''R'', None),
                       (UpdateRoom ''R'' invite_off, None),
                       (RemoveMemberFromRoom ''7'' ''R'', None)]), lg')))
      \<and> relation_after ''7'' ''R'' NotMember
         [(UpdateRoom ''R'' invite_off, Some (refused NOT_ROOM_OWNER_MESSAGE)),
          (PromoteUserToRoomOwner ''7'' ''R'', Some (refused (NOT_ROOM_MEMBER_MESSAGE ''7''))),
          (AddMemberToRoom ''7'' ''R'', None),
          (PromoteUserToRoomOwner ''7'' ''R'', None),
          (UpdateRoom ''R'' invite_off, None),
          (RemoveMemberFromRoom ''7'' ''R'', None)] = NotMember"
    by simp
  from a b c show ?thesis by blast
qed

section \<open>Properties of the check before the update\<close>


lemma update_room_skip:
  assumes "gw_get_room_info g (make_b64_id_safe (make_b64_id_safe stream_id)) s = (Inr current, s')"
    and "\<not> check_room_modified (room_attributes current) settings"
  shows "\<exists>lg'. update_room (Suc n) (recording g) bot_id stream_id settings True ((s, tr), lg) =
           Some (Inr current,
                 ((s', tr @ [(GetRoomInfo (make_b64_id_safe (make_b64_id_safe stream_id)), None)]),
                  lg'))"
  using assms by (simp add: Let_def update_room_try_def recording_get_room_info log_def)

lemma update_room_direct:
  assumes "gw_get_room_info g (make_b64_id_safe (make_b64_id_safe stream_id)) s = (Inr current, s1)"
    and "check_room_modified (room_attributes current) settings"
    and "gw_update_room g (make_b64_id_safe stream_id) settings s1 = (Inr updated, s2)"
  shows "\<exists>lg'. update_room (Suc n) (recording g) bot_id stream_id settings True ((s, tr), lg) =
           Some (Inr updated,
                 ((s2, tr @ [(GetRoomInfo (make_b64_id_safe (make_b64_id_safe stream_id)), None),
                             (UpdateRoom (make_b64_id_safe stream_id) settings, None)]),
                  lg'))"
  using assms
  by (simp add: Let_def update_room_try_def recording_get_room_info recording_update_room_write
        log_def)

text \<open>
  C5, as the code has it. With the check on, \<open>update_room\<close> fetches the current
  state first, and when \<open>_check_room_modified\<close> reports no difference it returns
  that state after this one call: no write reaches the gateway. Two calls in
  succession: when the first finds a difference and its update is accepted at
  once, and the state fetched by the second shows no difference, the first returns
  the updated state, the second returns the fetched state, and the update is the
  only write of the two calls.
\<close>

theorem update_room_pre_check_skips:
  assumes sid: "sid = make_b64_id_safe stream_id" and sid2: "sid2 = make_b64_id_safe sid"
  shows
    "(gw_get_room_info g sid2 s = (Inr current, s') \<and>
      \<not> check_room_modified (room_attributes current) settings
      \<longrightarrow>
      (\<exists>lg'. update_room (Suc n) (recording g) bot_id stream_id settings True ((s, tr), lg) =
               Some (Inr current, ((s', tr @ [(GetRoomInfo sid2, None)]), lg'))))
   \<and> (gw_get_room_info g sid2 s = (Inr current1, s1) \<and>
      check_room_modified (room_attributes current1) settings \<and>
      gw_update_room g sid settings s1 = (Inr updated, s2) \<and>
      gw_get_room_info g sid2 s2 = (Inr current2, s3) \<and>
      \<not> check_room_modified (room_attributes current2) settings
      \<longrightarrow>
      (\<exists>lg'. update_room_twice (Suc n) (recording g) bot_id stream_id settings ((s, []), lg) =
               Some (Inr updated, Inr current2,
                     ((s3, [(GetRoomInfo sid2, None), (UpdateRoom sid settings, None),
                            (GetRoomInfo sid2, None)]), lg'))) \<and>
      filter is_write [(GetRoomInfo sid2, None), (UpdateRoom sid settings, None),
                       (GetRoomInfo sid2, None)] = [(UpdateRoom sid settings, None)])"
proof -
  have first: "\<exists>lg'. update_room (Suc n) (recording g) bot_id stream_id settings True ((s, tr), lg) =
               Some (Inr current, ((s', tr @ [(GetRoomInfo sid2, None)]), lg'))"
    if "gw_get_room_info g sid2 s = (Inr current, s')"
       "\<not> check_room_modified (room_attributes current) settings"
    using update_room_skip [of g stream_id s current s' settings n bot_id tr lg] that sid sid2
    by simp
  have second: "\<exists>lg'. update_room_twice (Suc n) (recording g) bot_id stream_id settings ((s, []), lg) =
               Some (Inr updated, Inr current2,
                     ((s3, [(GetRoomInfo sid2, None), (UpdateRoom sid settings, None),
                            (GetRoomInfo sid2, None)]), lg'))"
    if a: "gw_get_room_info g sid2 s = (Inr current1, s1)"
          "check_room_modified (room_attributes current1) settings"
          "gw_update_room g sid settings s1 = (Inr updated, s2)"
       and b: "gw_get_room_info g sid2 s2 = (Inr current2, s3)"
          "\<not> check_room_modified (room_attributes current2) settings"
  proof -
    from update_room_direct [of g stream_id s current1 s1 settings updated s2 n bot_id "[]" lg]
         a sid sid2
    obtain lg1 where one:
      "update_room (Suc n) (recording g) bot_id stream_id settings True ((s, []), lg) =
         Some (Inr updated, ((s2, [(GetRoomInfo sid2, None), (UpdateRoom sid settings, None)]), lg1))"
      by auto
    from update_room_skip [of g stream_id s2 current2 s3 settings n bot_id
           "[(GetRoomInfo sid2, None), (UpdateRoom sid settings, None)]" lg1] b sid sid2
    obtain lg2 where two:
      "update_room (Suc n) (recording g) bot_id stream_id settings True
         ((s2, [(GetRoomInfo sid2, None), (UpdateRoom sid settings, None)]), lg1) =
         Some (Inr current2,
               ((s3, [(GetRoomInfo sid2, None), (UpdateRoom sid settings, None),
                      (GetRoomInfo sid2, None)]), lg2))"
      by auto
    show ?thesis unfolding update_room_twice_def one by (simp add: two del: update_room.simps)
  qed
  from first second show ?thesis by auto
qed

theorem update_room_pre_check_skips_witness:
  "(\<exists>lg'. update_room (Suc 0) (recording scripted) ''7'' ''R'' invite_off True
             (([Returns room_R_updated], []), []) =
           Some (Inr room_R_updated, (([], [(GetRoomInfo ''R'', None)]), lg')))
   \<and> (\<exists>lg'. update_room_twice (Suc 0) (recording scripted) ''7'' ''R'' invite_off
             (([Returns room_R, Returns room_R_updated, Returns room_R_updated], []), []) =
           Some (Inr room_R_updated, Inr room_R_updated,
                 (([], [(GetRoomInfo ''R'', None), (UpdateRoom ''R'' invite_off, None),
                        (GetRoomInfo ''R'', None)]), lg')))"
proof -
  note t = update_room_pre_check_skips
             [where n = 0 and lg = "[]" and bot_id = "''7''", OF example_facts(1) example_facts(1)]
  have skip: "gw_get_room_info scripted ''R'' [Returns room_R_updated] = (Inr room_R_updated, []) \<and>
              \<not> check_room_modified (room_attributes room_R_updated) invite_off"
    using example_facts(3) by (simp add: scripted_defs)
  have twice: "gw_get_room_info scripted ''R''
                 [Returns room_R, Returns room_R_updated, Returns room_R_updated] =
                 (Inr room_R, [Returns room_R_updated, Returns room_R_updated]) \<and>
               check_room_modified (room_attributes room_R) invite_off \<and>
               gw_update_room scripted ''R'' invite_off
                 [Returns room_R_updated, Returns room_R_updated] =
                 (Inr room_R_updated, [Returns room_R_updated]) \<and>
               gw_get_room_info scripted ''R'' [Returns room_R_updated] = (Inr room_R_updated, []) \<and>
               \<not> check_room_modified (room_attributes room_R_updated) invite_off"
    using example_facts(2,3) by (simp add: scripted_defs)
  from t [THEN conjunct1, rule_format, OF skip, where tr = "[]"]
  have a: "\<exists>lg'. update_room (Suc 0) (recording scripted) ''7'' ''R'' invite_off True
             (([Returns room_R_updated], []), []) =
           Some (Inr room_R_updated, (([], [(GetRoomInfo ''R'', None)]), lg'))"
    by simp
  from t [THEN conjunct2, rule_format, OF twice]
  have b: "\<exists>lg'. update_room_twice (Suc 0) (recording scripted) ''7'' ''R'' invite_off
             (([Returns room_R, Returns room_R_updated, Returns room_R_updated], []), []) =
           Some (Inr room_R_updated, Inr room_R_updated,
                 (([], [(GetRoomInfo ''R'', None), (UpdateRoom ''R'' invite_off, None),
                        (GetRoomInfo ''R'', None)]), lg'))"
    by blast
  from a b show ?thesis by blast
qed

text \<open>
  C5, as the claim words it, fails when the first call has to recover: the bot is
  not an owner, so the first call sends the refused update, the promotion, the
  retried update and the demotion. The second call is skipped, but the two calls
  made four write calls, two of them updates.
\<close>

theorem update_room_twice_counterexample:
  "map_option (\<lambda>(first, second, ((script, calls), lg)). (first, second, filter is_write calls))
     (update_room_twice (Suc (Suc 0)) (recording scripted) ''7'' ''R'' invite_off
        (([Returns room_R, Raises (refused NOT_ROOM_OWNER_MESSAGE), Done,
           Returns room_R_updated, Done, Returns room_R_updated], []), []))
   = Some (Inr room_R_updated, Inr room_R_updated,
           [(UpdateRoom ''R'' invite_off, Some (refused NOT_ROOM_OWNER_MESSAGE)),
            (PromoteUserToRoomOwner ''7'' ''R'', None),
            (UpdateRoom ''R'' invite_off, None),
            (DemoteOwnerToRoomParticipant ''7'' ''R'', None)])"
  by code_simp

section \<open>Properties of \<open>update_rooms\<close>\<close>

lemma update_rooms_loop_room_states:
  "update_rooms_loop n g bot_id streams settings pre_check results w =
     map_option (\<lambda>(outcomes, w'). (results @ room_states outcomes, w'))
       (update_many n g bot_id streams settings pre_check w)"
proof (induction streams arbitrary: results w)
  case Nil
  show ?case by simp
next
  case (Cons stream streams)
  show ?case
    by (simp add: Let_def Cons.IH split: option.splits sum.splits prod.splits)
qed

lemma update_many_length:
  "update_many n g bot_id streams settings pre_check w = Some (outcomes, w') \<Longrightarrow>
   length outcomes = length streams"
proof (induction streams arbitrary: outcomes w w')
  case Nil
  then show ?case by simp
next
  case (Cons stream streams)
  then show ?case
    by (auto simp: Let_def log_def split: option.splits sum.splits prod.splits)
qed

lemma update_many_returns:
  assumes "\<And>sid w0. update_room n g bot_id sid settings pre_check w0 \<noteq> None"
  shows "update_many n g bot_id streams settings pre_check w \<noteq> None"
proof (induction streams arbitrary: w)
  case Nil
  show ?case by simp
next
  case (Cons stream streams)
  show ?case
  proof (cases "info_attributes stream")
    case None
    with Cons.IH show ?thesis by (auto simp: Let_def split: option.splits)
  next
    case (Some name)
    from assms obtain r w1 where
      "update_room n g bot_id (make_b64_id_safe (info_id stream)) settings pre_check
         (log INFO (make_b64_id_safe (info_id stream)) ''Updating Stream'' w) = Some (r, w1)"
      by (metis not_None_eq surj_pair)
    with Some Cons.IH show ?thesis by (auto simp: Let_def split: option.splits)
  qed
qed

lemma room_states_length:
  "length (room_states outcomes) = length (filter (\<lambda>outcome. \<not> isl outcome) outcomes)"
  by (induction outcomes rule: room_states.induct) auto

text \<open>
  C2, as the code has it. \<open>update_rooms\<close> returns the room states of the rooms
  whose \<open>update_room\<close> returned, in the order of the input: the outcomes of
  \<open>update_many\<close>, one for every room, with the failures left out. A room whose
  update raised is logged and adds nothing to the result; the loop goes on with the
  next room. The driver returns whenever every call of \<open>update_room\<close> returns.
\<close>

theorem update_rooms_returns_room_states:
  "update_rooms n g bot_id streams settings pre_check w =
     map_option (\<lambda>(outcomes, w'). (room_states outcomes, w'))
       (update_many n g bot_id streams settings pre_check w)
   \<and> (\<forall>outcomes w'.
         update_many n g bot_id streams settings pre_check w = Some (outcomes, w') \<longrightarrow>
         length outcomes = length streams \<and>
         length (room_states outcomes) = length (filter (\<lambda>outcome. \<not> isl outcome) outcomes))
   \<and> ((\<forall>sid w0. update_room n g bot_id sid settings pre_check w0 \<noteq> None) \<longrightarrow>
        update_rooms n g bot_id streams settings pre_check w \<noteq> None)"
proof -
  have a: "update_rooms n g bot_id streams settings pre_check w =
     map_option (\<lambda>(outcomes, w'). (room_states outcomes, w'))
       (update_many n g bot_id streams settings pre_check w)"
    by (simp add: update_rooms_def update_rooms_loop_room_states)
  have c: "update_rooms n g bot_id streams settings pre_check w \<noteq> None"
    if "\<forall>sid w0. update_room n g bot_id sid settings pre_check w0 \<noteq> None"
    using update_many_returns [of n g bot_id settings pre_check streams w] that
    unfolding a by simp
  from a c update_many_length room_states_length show ?thesis by blast
qed

text \<open>
  C2, as the claim words it, fails on the rooms A, B, C when the update of B is
  refused for an unknown reason: there are three outcomes, but \<open>update_rooms\<close>
  returns two room states, those of A and C, and nothing for B.
\<close>

theorem update_rooms_counterexample:
  "map_option fst
     (update_rooms (Suc 0) (recording scripted) ''7'' [stream_A, stream_B, stream_C] invite_off True
        ((script_ABC, []), []))
   = Some [room_R_updated, room_R_updated]
   \<and> map_option fst
     (update_many (Suc 0) (recording scripted) ''7'' [stream_A, stream_B, stream_C] invite_off True
        ((script_ABC, []), []))
   = Some [Inr room_R_updated, Inl (refused ''Internal server error''), Inr room_R_updated]"
  by code_simp

theorem update_rooms_returns_room_states_witness:
  "map_option fst
     (update_rooms (Suc 0) (recording scripted) ''7'' [stream_A, stream_B, stream_C] invite_off True
        ((script_ABC, []), []))
   = Some (room_states
             [Inr room_R_updated, Inl (refused ''Internal server error''), Inr room_R_updated])
   \<and> length [Inr room_R_updated, Inl (refused ''Internal server error''), Inr room_R_updated]
       = length [stream_A, stream_B, stream_C]
   \<and> update_rooms (Suc 0) (accepting room_R) ''7'' [stream_A, stream_B, stream_C] invite_off True
        ((), []) \<noteq> None"
proof -
  note t = update_rooms_returns_room_states
             [of "Suc 0" "recording scripted" "''7''" "[stream_A, stream_B, stream_C]" invite_off
                 True "((script_ABC, []), [])"]
  have many: "map_option fst
     (update_many (Suc 0) (recording scripted) ''7'' [stream_A, stream_B, stream_C] invite_off True
        ((script_ABC, []), []))
   = Some [Inr room_R_updated, Inl (refused ''Internal server error''), Inr room_R_updated]"
    by code_simp
  then obtain w' where w':
    "update_many (Suc 0) (recording scripted) ''7'' [stream_A, stream_B, stream_C] invite_off True
        ((script_ABC, []), [])
     = Some ([Inr room_R_updated, Inl (refused ''Internal server error''), Inr room_R_updated], w')"
    by auto
  have a: "map_option fst
     (update_rooms (Suc 0) (recording scripted) ''7'' [stream_A, stream_B, stream_C] invite_off True
        ((script_ABC, []), []))
   = Some (room_states
             [Inr room_R_updated, Inl (refused ''Internal server error''), Inr room_R_updated])"
    using t [THEN conjunct1] w' by simp
  have b: "length [Inr room_R_updated, Inl (refused ''Internal server error''), Inr room_R_updated]
       = length [stream_A, stream_B, stream_C]"
    using t [THEN conjunct2, THEN conjunct1, rule_format, OF w'] by blast
  have returns: "update_room (Suc 0) (accepting room_R) ''7'' sid invite_off True w0 \<noteq> None"
    for sid w0
    using example_facts(2)
    by (simp add: Let_def update_room_try_def get_room_info_def call_gateway_def accepting_def
          update_room_write_def)
  have c: "update_rooms (Suc 0) (accepting room_R) ''7'' [stream_A, stream_B, stream_C] invite_off
             True ((), []) \<noteq> None"
    using update_rooms_returns_room_states
            [of "Suc 0" "accepting room_R" "''7''" "[stream_A, stream_B, stream_C]" invite_off
                True "((), [])", THEN conjunct2, THEN conjunct2, rule_format, OF returns]
    by simp
  from a b c show ?thesis by blast
qed

section \<open>Further properties of the identifier and of the CSV mapping\<close>

lemma rdrop_fixed:
  "rev (dropWhile P (rev s)) = s \<longleftrightarrow> s = [] \<or> \<not> P (last s)"
proof (cases "rev s")
  case Nil
  then show ?thesis by simp
next
  case (Cons c cs)
  then have s: "s = rev cs @ [c]" by (metis rev.simps(2) rev_rev_ident)
  show ?thesis
  proof (cases "P c")
    case True
    have "dropWhile P (rev s) = dropWhile P cs" using Cons True by simp
    then have "length (rev (dropWhile P (rev s))) \<le> length cs"
      by (simp add: length_dropWhile_le)
    moreover have "length s = Suc (length cs)" using s by simp
    ultimately have "length (rev (dropWhile P (rev s))) \<noteq> length s" by simp
    then have "rev (dropWhile P (rev s)) \<noteq> s" by metis
    with True s show ?thesis by simp
  next
    case False
    with s show ?thesis by simp
  qed
qed

lemma rdrop_last:
  "rev (dropWhile P (rev s)) \<noteq> [] \<Longrightarrow> \<not> P (last (rev (dropWhile P (rev s))))"
  by (metis hd_dropWhile last_rev rev_is_Nil_conv)

lemma rdrop_set: "set (rev (dropWhile P (rev s))) \<subseteq> set s"
  using set_dropWhileD by fastforce

lemma rdrop_length: "length (rev (dropWhile P (rev s))) \<le> length s"
  using length_dropWhile_le [of P "rev s"] by simp

lemma replace_char_absent: "a \<notin> set s \<Longrightarrow> replace_char a b s = s"
  by (induction s) (auto simp: replace_char_def)

lemma replace_char_removes: "a \<noteq> b \<Longrightarrow> a \<notin> set (replace_char a b s)"
  by (auto simp: replace_char_def)

lemma replace_char_keeps_absent: "a \<notin> set s \<Longrightarrow> a \<noteq> d \<Longrightarrow> a \<notin> set (replace_char c d s)"
  by (auto simp: replace_char_def)

lemma make_b64_id_safe_chars:
  "CHR ''+'' \<notin> set (make_b64_id_safe x)" "CHR ''/'' \<notin> set (make_b64_id_safe x)"
proof -
  let ?m = "replace_char CHR ''/'' CHR ''_'' (replace_char CHR ''+'' CHR ''-'' x)"
  have "CHR ''+'' \<notin> set ?m"
    by (rule replace_char_keeps_absent) (simp_all add: replace_char_removes)
  moreover have "CHR ''/'' \<notin> set ?m" by (simp add: replace_char_removes)
  moreover have "set (make_b64_id_safe x) \<subseteq> set ?m"
    unfolding make_b64_id_safe_def rstrip_def rstrip_chars_def
    using rdrop_set [of is_space] rdrop_set [of "\<lambda>c. c \<in> set ''=''"] by (meson subset_trans)
  ultimately show "CHR ''+'' \<notin> set (make_b64_id_safe x)" "CHR ''/'' \<notin> set (make_b64_id_safe x)"
    by auto
qed

lemma make_b64_id_safe_no_trailing_space:
  "make_b64_id_safe x \<noteq> [] \<Longrightarrow> \<not> is_space (last (make_b64_id_safe x))"
  unfolding make_b64_id_safe_def rstrip_def by (rule rdrop_last)

lemma endswith_eq_sign: "endswith s ''='' \<longleftrightarrow> s \<noteq> [] \<and> last s = CHR ''=''"
proof (cases s rule: rev_cases)
  case Nil
  then show ?thesis by (simp add: endswith_def)
next
  case (snoc ys y)
  then show ?thesis by (auto simp: endswith_def)
qed

text \<open>
  When normalising twice is the same as normalising once: exactly when the first
  result does not end with the padding character. The first result never ends with
  whitespace and has no plus sign or slash, so the second pass can only strip
  padding that the first pass left behind a blank.
\<close>

theorem make_b64_id_safe_idempotent_iff:
  "make_b64_id_safe (make_b64_id_safe x) = make_b64_id_safe x \<longleftrightarrow>
     \<not> endswith (make_b64_id_safe x) ''=''"
proof -
  let ?y = "make_b64_id_safe x"
  let ?e = "rstrip_chars ''='' ?y"
  have m: "replace_char CHR ''/'' CHR ''_'' (replace_char CHR ''+'' CHR ''-'' ?y) = ?y"
    by (simp add: replace_char_absent make_b64_id_safe_chars)
  then have again: "make_b64_id_safe ?y = rstrip ?e"
    by (simp add: make_b64_id_safe_def [of ?y])
  show ?thesis
  proof (cases "endswith ?y ''=''")
    case True
    then have "?e \<noteq> ?y"
      unfolding rstrip_chars_def rdrop_fixed endswith_eq_sign by simp
    moreover have "length ?e \<le> length ?y" unfolding rstrip_chars_def by (rule rdrop_length)
    moreover have "take (length ?e) ?y = ?e"
      unfolding rstrip_chars_def
      by (metis append_eq_conv_conj append_take_drop_id length_rev rev_append rev_rev_ident
          takeWhile_dropWhile_id)
    ultimately have "length ?e < length ?y"
      by (metis le_neq_implies_less take_all_iff order_refl)
    moreover have "length (rstrip ?e) \<le> length ?e" unfolding rstrip_def by (rule rdrop_length)
    ultimately have "rstrip ?e \<noteq> ?y" by auto
    with True again show ?thesis by simp
  next
    case False
    then have "?e = ?y" unfolding rstrip_chars_def rdrop_fixed endswith_eq_sign by auto
    moreover have "rstrip ?y = ?y"
      unfolding rstrip_def rdrop_fixed using make_b64_id_safe_no_trailing_space by blast
    ultimately show ?thesis using False again by simp
  qed
qed

theorem make_b64_id_safe_idempotent_iff_witness:
  "make_b64_id_safe (make_b64_id_safe ''ab+c/d= '') \<noteq> make_b64_id_safe ''ab+c/d= ''
   \<and> make_b64_id_safe (make_b64_id_safe ''ab+c/d='') = make_b64_id_safe ''ab+c/d=''"
proof -
  have a: "endswith (make_b64_id_safe ''ab+c/d= '') ''=''" by code_simp
  have b: "\<not> endswith (make_b64_id_safe ''ab+c/d='') ''=''" by code_simp
  from a b make_b64_id_safe_idempotent_iff [of "''ab+c/d= ''"]
       make_b64_id_safe_idempotent_iff [of "''ab+c/d=''"]
  show ?thesis by blast
qed

lemma csv_cell_bool_plus: "csv_cell_to_value ''bool+'' s = Inr v \<Longrightarrow> v = PNone"
  by (auto simp: csv_cell_to_value_def Let_def type_facts split: if_splits sum.splits pyval.splits)

lemma csv_attributes_loop_copy_protected:
  "map_of acc ''copy_protected'' = None \<Longrightarrow> csv_attributes_loop row acc = Inr res \<Longrightarrow>
   map_of res ''copy_protected'' = None"
proof (induction row arbitrary: acc)
  case Nil
  then show ?case by simp
next
  case (Cons p row)
  obtain k c where p: "p = (k, c)" by (cases p)
  show ?case
  proof (cases "map_of CSV_ROOM_TO_ROOM_ATTRIBUTES_MAP k")
    case None
    with Cons p show ?thesis by simp
  next
    case (Some nt)
    obtain nm ty where nt: "nt = (nm, ty)" by (cases nt)
    from Some nt have kind: "nm \<noteq> ''copy_protected'' \<or> ty = ''bool+''"
      by (auto simp: CSV_ROOM_TO_ROOM_ATTRIBUTES_MAP_def split: if_splits)
    from Cons.prems(2) p Some nt obtain s v where
      sv: "c = PStr s" "csv_cell_to_value ty s = Inr v"
      by (auto split: pyval.splits sum.splits)
    show ?thesis
    proof (cases "v = PNone")
      case True
      with Cons p Some nt sv show ?thesis by simp
    next
      case False
      with kind sv csv_cell_bool_plus have "nm \<noteq> ''copy_protected''" by blast
      then have "map_of (AList.update nm v acc) ''copy_protected'' = None"
        using Cons.prems(1) by (simp add: update_conv')
      from Cons.IH [OF this] Cons.prems(2) p Some nt sv False show ?thesis by simp
    qed
  qed
qed

text \<open>
  Whatever the row, the attributes that \<open>_csv_room_settings_to_v3_room_attributes\<close>
  returns do not store \<open>copy_protected\<close>: the only column mapped to it has the
  type \<open>bool+\<close>, whose value is always discarded.
\<close>

theorem csv_never_sets_copy_protected:
  "csv_room_settings_to_v3_room_attributes room_row = Inr room_attributes' \<Longrightarrow>
   map_of room_attributes' ''copy_protected'' = None"
  using csv_attributes_loop_copy_protected [of "[]" room_row room_attributes']
  by (auto simp: csv_room_settings_to_v3_room_attributes_def split: option.splits pyval.splits)

theorem csv_never_sets_copy_protected_witness:
  "csv_room_settings_to_v3_room_attributes
     [(''streamId'', PStr ''abc''), (''copyProtected'', PStr ''YES''), (''viewHistory'', PStr ''no'')]
     = Inr [(''view_history'', PBool False)]
   \<and> map_of [(''view_history'', PBool False)] ''copy_protected'' = None"
proof -
  have a: "csv_room_settings_to_v3_room_attributes
     [(''streamId'', PStr ''abc''), (''copyProtected'', PStr ''YES''), (''viewHistory'', PStr ''no'')]
     = Inr [(''view_history'', PBool False)]"
    by code_simp
  from csv_never_sets_copy_protected [OF a] a show ?thesis by blast
qed

end
